theory Spec2Isabelle
  imports Complex_Main
begin

section \<open>INMET Data Quality Analyzer: configuration\<close>

text \<open>
  Numbers are modelled as exact reals: Python's binary floating point rounding is not
  part of this development. A Python float that may be NaN is a \<open>real option\<close>, with
  \<open>None\<close> for NaN; it arises only where numpy divides by a zero row count or averages
  an empty list. A null cell of a column is \<open>None\<close> as well.
\<close>

subsection \<open>src/config.py\<close>

definition DECIMAL_SEPARATOR :: string where
  "DECIMAL_SEPARATOR = '',''"

text \<open>
  The keys of \<open>PHYSICAL_LIMITS\<close>. The degree sign is the single code point U+00B0,
  written \<open>CHR 0xB0\<close>.
\<close>

definition deg :: string where
  "deg = [CHR 0xB0]"

definition PHYSICAL_LIMITS :: "(string \<times> (real \<times> real)) list" where
  "PHYSICAL_LIMITS =
    [(''PRECIPITACAO TOTAL, DIARIO (AUT)(mm)'', (0, 500)),
     (''PRESSAO ATMOSFERICA MEDIA DIARIA (AUT)(mB)'', (900, 1050)),
     (''TEMPERATURA DO PONTO DE ORVALHO MEDIA DIARIA (AUT)('' @ deg @ ''C)'', (-50, 50)),
     (''TEMPERATURA MAXIMA, DIARIA (AUT)('' @ deg @ ''C)'', (-50, 60)),
     (''TEMPERATURA MEDIA, DIARIA (AUT)('' @ deg @ ''C)'', (-50, 60)),
     (''TEMPERATURA MINIMA, DIARIA (AUT)('' @ deg @ ''C)'', (-50, 60)),
     (''UMIDADE RELATIVA DO AR, MEDIA DIARIA (AUT)(%)'', (0, 100)),
     (''UMIDADE RELATIVA DO AR, MINIMA DIARIA (AUT)(%)'', (0, 100)),
     (''VENTO, RAJADA MAXIMA DIARIA (AUT)(m/s)'', (0, 100)),
     (''VENTO, VELOCIDADE MEDIA DIARIA (AUT)(m/s)'', (0, 50))]"

text \<open>\<open>QUALITY_INDEX_WEIGHTS\<close>: completude, validade, consistencia.\<close>

definition W_completude :: real where
  "W_completude = 4 / 10"

definition W_validade :: real where
  "W_validade = 4 / 10"

definition W_consistencia :: real where
  "W_consistencia = 2 / 10"

text \<open>\<open>RECOMMENDATION_CRITERIA\<close>: adequado, parcialmente\_adequado.\<close>

definition CRIT_adequado :: real where
  "CRIT_adequado = 80"

definition CRIT_parcialmente_adequado :: real where
  "CRIT_parcialmente_adequado = 60"

section \<open>src/modules/quality\_metrics.py: the recommendation policy\<close>

text \<open>
  \<open>QualityMetricsCalculator.get_recommendation\<close>. The labels and sentences are the
  Portuguese strings of the source, an accented letter being its single code point
  (\<open>CHR 0xED\<close> is i with acute, \<open>CHR 0xE3\<close> is a with tilde). Adequado is
  "Adequate", Parcialmente Adequado is "Partially Adequate" and Inadequado is
  "Inadequate".
\<close>

definition rec_adequado :: "string \<times> string" where
  "rec_adequado =
    (''Adequado'',
     ''Dados de qualidade adequada para uso cient'' @ [CHR 0xED] @ ''fico'')"

definition rec_parcialmente_adequado :: "string \<times> string" where
  "rec_parcialmente_adequado =
    (''Parcialmente Adequado'',
     ''Dados com qualidade moderada, recomenda-se revis'' @ [CHR 0xE3] @ ''o antes do uso'')"

definition rec_inadequado :: "string \<times> string" where
  "rec_inadequado =
    (''Inadequado'',
     ''Dados com qualidade insuficiente para uso cient'' @ [CHR 0xED] @ ''fico'')"

definition get_recommendation :: "real \<Rightarrow> string \<times> string" where
  "get_recommendation quality_index =
    (if quality_index \<ge> CRIT_adequado then rec_adequado
     else if quality_index \<ge> CRIT_parcialmente_adequado then rec_parcialmente_adequado
     else rec_inadequado)"

section \<open>The observation table\<close>

text \<open>
  A pandas DataFrame as the loader leaves it: the date column \<open>Data\<close> (a calendar
  date is its day number, an unparseable date is null) and the variable columns in
  file order, each a list of nullable numbers. Row labels are the positions
  \<open>0, 1, ...\<close> (the loader ends with \<open>reset_index\<close>). In pandas every column has as
  many cells as the table has rows and column names are unique; \<open>wf_dataframe\<close>
  says so.
\<close>

type_synonym date = int

record dataframe =
  Data :: "date option list"
  variables :: "(string \<times> real option list) list"

datatype py_error = KeyError string

definition df_len :: "dataframe \<Rightarrow> nat" where
  "df_len df = length (Data df)"

definition df_columns :: "dataframe \<Rightarrow> string list" where
  "df_columns df = ''Data'' # map fst (variables df)"

definition wf_dataframe :: "dataframe \<Rightarrow> bool" where
  "wf_dataframe df \<longleftrightarrow>
     distinct (df_columns df) \<and> list_all (\<lambda>(c, s). length s = df_len df) (variables df)"

text \<open>\<open>df[col]\<close> for a variable column; a name the table does not have raises.\<close>

definition df_getitem :: "dataframe \<Rightarrow> string \<Rightarrow> py_error + real option list" where
  "df_getitem df col =
     (case map_of (variables df) col of None \<Rightarrow> Inl (KeyError col) | Some s \<Rightarrow> Inr s)"

text \<open>The columns every per-variable loop visits: \<open>[col for col in df.columns if col != 'Data']\<close>.\<close>

definition non_date_columns :: "dataframe \<Rightarrow> string list" where
  "non_date_columns df = filter (\<lambda>col. col \<noteq> ''Data'') (df_columns df)"

subsection \<open>pandas and numpy operations on a column\<close>

definition isna :: "'a option list \<Rightarrow> bool list" where
  "isna s = map (\<lambda>v. v = None) s"

definition notna :: "'a option list \<Rightarrow> bool list" where
  "notna s = map (\<lambda>v. v \<noteq> None) s"

text \<open>\<open>mask.sum()\<close>: the number of true cells.\<close>

definition mask_sum :: "bool list \<Rightarrow> nat" where
  "mask_sum m = length (filter (\<lambda>b. b) m)"

text \<open>\<open>df[mask].index.tolist()\<close>: the row positions where the mask is true.\<close>

definition mask_indices :: "bool list \<Rightarrow> nat list" where
  "mask_indices m = map fst (filter snd (enumerate 0 m))"

fun dropna :: "'a option list \<Rightarrow> 'a list" where
  "dropna [] = []"
| "dropna (None # s) = dropna s"
| "dropna (Some x # s) = x # dropna s"

text \<open>
  A comparison with a null cell is false: \<open>(s >= lo) & (s <= hi)\<close>.
\<close>

definition between_mask :: "real \<Rightarrow> real \<Rightarrow> real option list \<Rightarrow> bool list" where
  "between_mask lo hi s =
     map (\<lambda>v. case v of None \<Rightarrow> False | Some x \<Rightarrow> x \<ge> lo \<and> x \<le> hi) s"

text \<open>
  \<open>a / b * 100\<close> on numpy integers: a zero divisor gives NaN (with a warning), not
  an exception.
\<close>

definition np_percentage :: "nat \<Rightarrow> nat \<Rightarrow> real option" where
  "np_percentage a b = (if b = 0 then None else Some (real a / real b * 100))"

section \<open>src/modules/data\_validator.py\<close>

subsection \<open>validate\_physical\_limits\<close>

record validation_result =
  valid_count :: nat
  invalid_count :: nat
  null_count :: nat
  total_count :: nat
  valid_percentage :: "real option"
  invalid_indices :: "nat list"
  min_limit :: real
  max_limit :: real

definition physical_limits_of ::
  "dataframe \<Rightarrow> real \<times> real \<Rightarrow> real option list \<Rightarrow> validation_result" where
  "physical_limits_of df bounds s =
     (let lo = fst bounds; hi = snd bounds;
          valid_mask = between_mask lo hi s;
          null_mask = isna s;
          invalid_mask = map2 (\<lambda>v n. \<not> v \<and> \<not> n) valid_mask null_mask
      in \<lparr> valid_count = mask_sum valid_mask,
           invalid_count = mask_sum invalid_mask,
           null_count = mask_sum null_mask,
           total_count = df_len df,
           valid_percentage = np_percentage (mask_sum valid_mask) (df_len df),
           invalid_indices = mask_indices invalid_mask,
           min_limit = lo,
           max_limit = hi \<rparr>)"

text \<open>
  The loop over \<open>df.columns\<close>: the date column and every column without an entry in
  \<open>PHYSICAL_LIMITS\<close> are skipped. The table of limits is a parameter here; the
  method itself uses the configured one.
\<close>

fun validate_columns ::
  "(string \<times> (real \<times> real)) list \<Rightarrow> dataframe \<Rightarrow> (string \<times> real option list) list \<Rightarrow>
   (string \<times> validation_result) list" where
  "validate_columns limits df [] = []"
| "validate_columns limits df ((col, s) # rest) =
     (if col = ''Data'' then validate_columns limits df rest
      else case map_of limits col of
             None \<Rightarrow> validate_columns limits df rest
           | Some bounds \<Rightarrow> (col, physical_limits_of df bounds s) # validate_columns limits df rest)"

definition validate_physical_limits :: "dataframe \<Rightarrow> (string \<times> validation_result) list" where
  "validate_physical_limits df = validate_columns PHYSICAL_LIMITS df (variables df)"

subsection \<open>detect\_missing\_data\_patterns\<close>

text \<open>
  \<open>df.loc[i, 'Data']\<close>. The loop below only reads rows of the table; the second
  branch keeps the function total on a column longer than the table.
\<close>

definition loc_Data :: "dataframe \<Rightarrow> nat \<Rightarrow> date option" where
  "loc_Data df i = (if i < df_len df then Data df ! i else None)"

record null_run =
  run_start :: nat
  run_end :: nat
  run_length :: nat
  start_date :: "date option"
  end_date :: "date option"

record missing_pattern =
  mp_null_count :: nat
  null_percentage :: "real option"
  consecutive_nulls :: "null_run list"

text \<open>
  One iteration of \<open>for idx, is_null in enumerate(null_mask)\<close>; the state is
  \<open>(start_idx, consecutive_nulls)\<close>. The two branches of the source, \<open>is_null and
  start_idx is None\<close> and \<open>not is_null and start_idx is not None\<close>, are reached here
  by looking at \<open>start_idx\<close> first; in every other case the state is unchanged.
\<close>

definition null_step ::
  "dataframe \<Rightarrow> nat \<times> bool \<Rightarrow> nat option \<times> null_run list \<Rightarrow> nat option \<times> null_run list" where
  "null_step df cell st =
     (let idx = fst cell; is_null = snd cell; acc = snd st
      in case fst st of
           None \<Rightarrow> if is_null then (Some idx, acc) else (None, acc)
         | Some start_idx \<Rightarrow>
             if \<not> is_null
             then (None, acc @ [\<lparr> run_start = start_idx, run_end = idx - 1,
                                  run_length = idx - start_idx,
                                  start_date = loc_Data df start_idx,
                                  end_date = loc_Data df (idx - 1) \<rparr>])
             else (Some start_idx, acc))"

text \<open>The run still open when the loop ends is closed at the last row.\<close>

definition close_run :: "dataframe \<Rightarrow> nat option \<times> null_run list \<Rightarrow> null_run list" where
  "close_run df st =
     (case fst st of
        None \<Rightarrow> snd st
      | Some start_idx \<Rightarrow>
          snd st @ [\<lparr> run_start = start_idx, run_end = df_len df - 1,
                      run_length = df_len df - start_idx,
                      start_date = loc_Data df start_idx,
                      end_date = loc_Data df (df_len df - 1) \<rparr>])"

definition missing_pattern_of :: "dataframe \<Rightarrow> real option list \<Rightarrow> missing_pattern" where
  "missing_pattern_of df s =
     (let null_mask = isna s; n = mask_sum null_mask
      in if n = 0
         then \<lparr> mp_null_count = 0, null_percentage = Some 0, consecutive_nulls = [] \<rparr>
         else \<lparr> mp_null_count = n,
                null_percentage = np_percentage n (df_len df),
                consecutive_nulls =
                  close_run df (fold (null_step df) (enumerate 0 null_mask) (None, [])) \<rparr>)"

definition detect_missing_data_patterns :: "dataframe \<Rightarrow> (string \<times> missing_pattern) list" where
  "detect_missing_data_patterns df =
     map (\<lambda>(col, s). (col, missing_pattern_of df s))
       (filter (\<lambda>(col, s). col \<noteq> ''Data'') (variables df))"

subsection \<open>validate\_date\_sequence\<close>

text \<open>
  \<open>dates.diff().dt.days\<close>: the first cell has no predecessor and is NaN, every
  other cell is the number of days since the previous date.
\<close>

fun diff_days :: "date list \<Rightarrow> int option list" where
  "diff_days [] = []"
| "diff_days (d # ds) = None # map2 (\<lambda>a b. Some (b - a)) (d # ds) ds"

text \<open>A comparison with NaN is false.\<close>

definition ge_zero :: "int option \<Rightarrow> bool" where
  "ge_zero v = (case v of None \<Rightarrow> False | Some x \<Rightarrow> x \<ge> 0)"

definition le_zero :: "int option \<Rightarrow> bool" where
  "le_zero v = (case v of None \<Rightarrow> False | Some x \<Rightarrow> x \<le> 0)"

fun list_min :: "int list \<Rightarrow> int" where
  "list_min [] = 0"
| "list_min (x # xs) = fold min xs x"

fun list_max :: "int list \<Rightarrow> int" where
  "list_max [] = 0"
| "list_max (x # xs) = fold max xs x"

record gap =
  date :: date
  gap_days :: int

record date_report =
  is_sorted :: bool
  total_dates :: nat
  date_range :: "date \<times> date"
  expected_days :: int
  actual_days :: nat
  gaps :: "gap list"
  gap_count :: nat

text \<open>
  The result is either \<open>{'valid': False, 'message': 'Dados insuficientes'}\<close> or the
  full report.
\<close>

datatype date_validation = Insufficient bool string | Report date_report

definition find_gaps :: "date list \<Rightarrow> (nat \<times> int option) list \<Rightarrow> gap list" where
  "find_gaps dates cells =
     List.map_filter
       (\<lambda>(idx, v). case v of
            None \<Rightarrow> None
          | Some d \<Rightarrow> if d \<noteq> 1 \<and> d \<noteq> 0 then Some \<lparr> date = dates ! idx, gap_days = d \<rparr>
                      else None)
       cells"

definition validate_date_sequence :: "dataframe \<Rightarrow> date_validation" where
  "validate_date_sequence df =
     (let dates = dropna (Data df)
      in if length dates < 2 then Insufficient False ''Dados insuficientes''
         else
           let date_diffs = diff_days dates;
               sorted_flag = (list_all ge_zero date_diffs \<or> list_all le_zero date_diffs);
               found = find_gaps dates (enumerate 0 date_diffs)
           in Report \<lparr> is_sorted = sorted_flag,
                        total_dates = length dates,
                        date_range = (list_min dates, list_max dates),
                        expected_days = list_max dates - list_min dates + 1,
                        actual_days = length dates,
                        gaps = found,
                        gap_count = length found \<rparr>)"

section \<open>src/modules/data\_loader.py: numeric repair\<close>

text \<open>
  A raw cell of a column that \<open>read_csv\<close> left as text: a string, or null for one of
  the configured null tokens.
\<close>

definition fix_malformed_numbers :: "string option \<Rightarrow> string option" where
  "fix_malformed_numbers v =
     (case v of
        None \<Rightarrow> None
      | Some s \<Rightarrow> if take 1 s = '','' then Some (''0'' @ s) else Some s)"

text \<open>
  \<open>pd.to_numeric(cell, errors='coerce')\<close> on one cell, for plain decimal literals: an
  optional sign, digits, and an optional fraction after a decimal point. pandas
  reads the point as \<open>'.'\<close> whatever \<open>DECIMAL_SEPARATOR\<close> is; \<open>to_numeric\<close> has no
  parameter for it. Text that is not a number is coerced to null. Exponents, blanks
  around the number and the spellings of infinity, which pandas also reads as
  numbers, are outside this grammar; no statement below is about such a cell.
\<close>

definition is_digit :: "char \<Rightarrow> bool" where
  "is_digit c \<longleftrightarrow> c \<in> set ''0123456789''"

definition digit_val :: "char \<Rightarrow> nat" where
  "digit_val c = of_char c - 48"

definition digits_value :: "string \<Rightarrow> nat" where
  "digits_value s = fold (\<lambda>c n. 10 * n + digit_val c) s 0"

definition parse_unsigned :: "string \<Rightarrow> real option" where
  "parse_unsigned s =
     (let ip = takeWhile is_digit s; rest = dropWhile is_digit s
      in case rest of
           [] \<Rightarrow> if ip = [] then None else Some (real (digits_value ip))
         | c # fp \<Rightarrow>
             if c = CHR ''.'' \<and> list_all is_digit fp \<and> (ip \<noteq> [] \<or> fp \<noteq> [])
             then Some (real (digits_value ip) + real (digits_value fp) / 10 ^ length fp)
             else None)"

definition to_numeric :: "string option \<Rightarrow> real option" where
  "to_numeric v =
     (case v of
        None \<Rightarrow> None
      | Some s \<Rightarrow>
          (case s of
             [] \<Rightarrow> None
           | c # r \<Rightarrow> if c = CHR ''-'' then map_option uminus (parse_unsigned r)
                      else if c = CHR ''+'' then parse_unsigned r
                      else parse_unsigned s))"

text \<open>
  The body of the loop of \<open>load_data\<close> over the columns that are not numeric:
  \<open>df[col].apply(self.fix_malformed_numbers)\<close>, then \<open>pd.to_numeric\<close>.
\<close>

definition convert_column :: "string option list \<Rightarrow> real option list" where
  "convert_column s = map to_numeric (map fix_malformed_numbers s)"

section \<open>src/modules/quality\_metrics.py\<close>

text \<open>
  The calculator object: the table, the validator's physical-limit results it was
  built from, and the cached \<open>self.metrics\<close>. Dictionaries keyed by column name are
  association lists in insertion order.
\<close>

record completeness_entry =
  non_null_count :: nat
  c_null_count :: int
  c_total_count :: nat
  completeness_percentage :: "real option"

record validity_entry =
  v_valid_count :: nat
  v_invalid_count :: nat
  v_null_count :: nat
  v_total_count :: nat
  validity_percentage :: real
  v_min_limit :: real
  v_max_limit :: real

record consistency_entry =
  consistency_percentage :: real
  anomaly_count :: nat
  message :: "string option"
  anomaly_percentage :: "real option"
  c_mean :: "real option"
  c_std :: "real option"

record quality_entry =
  quality_index :: "real option"
  completeness_score :: "real option"
  validity_score :: real
  consistency_score :: real

record calculator =
  self_df :: dataframe
  self_validation_results :: "(string \<times> validation_result) list"
  self_metrics :: "(string \<times> quality_entry) list"

definition init_calculator ::
  "dataframe \<Rightarrow> (string \<times> validation_result) list \<Rightarrow> calculator" where
  "init_calculator df results =
     \<lparr> self_df = df, self_validation_results = results, self_metrics = [] \<rparr>"

text \<open>
  \<open>if column: columns = [column] else: columns = [every column but 'Data']\<close>; an
  empty name is falsy like \<open>None\<close>.
\<close>

definition select_columns :: "dataframe \<Rightarrow> string option \<Rightarrow> string list" where
  "select_columns df column =
     (case column of
        None \<Rightarrow> non_date_columns df
      | Some c \<Rightarrow> if c \<noteq> [] then [c] else non_date_columns df)"

text \<open>A loop whose body may raise: the first error ends it.\<close>

fun for_each :: "('a \<Rightarrow> 'e + 'b) \<Rightarrow> 'a list \<Rightarrow> 'e + 'b list" where
  "for_each f [] = Inr []"
| "for_each f (x # xs) =
     (case f x of
        Inl e \<Rightarrow> Inl e
      | Inr y \<Rightarrow> (case for_each f xs of Inl e \<Rightarrow> Inl e | Inr ys \<Rightarrow> Inr (y # ys)))"

subsection \<open>calculate\_completeness\<close>

definition completeness_of :: "dataframe \<Rightarrow> real option list \<Rightarrow> completeness_entry" where
  "completeness_of df s =
     (let n = mask_sum (notna s); total = df_len df
      in \<lparr> non_null_count = n,
           c_null_count = int total - int n,
           c_total_count = total,
           completeness_percentage = np_percentage n total \<rparr>)"

definition calculate_completeness ::
  "calculator \<Rightarrow> string option \<Rightarrow> py_error + (string \<times> completeness_entry) list" where
  "calculate_completeness calc column =
     for_each
       (\<lambda>col. case df_getitem (self_df calc) col of
                 Inl e \<Rightarrow> Inl e
               | Inr s \<Rightarrow> Inr (col, completeness_of (self_df calc) s))
       (select_columns (self_df calc) column)"

subsection \<open>calculate\_validity\<close>

definition validity_of :: "validation_result \<Rightarrow> validity_entry" where
  "validity_of result =
     (let total_non_null = valid_count result + invalid_count result
      in \<lparr> v_valid_count = valid_count result,
           v_invalid_count = invalid_count result,
           v_null_count = null_count result,
           v_total_count = total_count result,
           validity_percentage =
             (if total_non_null > 0
              then real (valid_count result) / real total_non_null * 100 else 0),
           v_min_limit = min_limit result,
           v_max_limit = max_limit result \<rparr>)"

definition calculate_validity ::
  "calculator \<Rightarrow> string option \<Rightarrow> (string \<times> validity_entry) list" where
  "calculate_validity calc column =
     List.map_filter
       (\<lambda>col. case map_of (self_validation_results calc) col of
                 None \<Rightarrow> None
               | Some result \<Rightarrow> Some (col, validity_of result))
       (select_columns (self_df calc) column)"

subsection \<open>calculate\_consistency\<close>

text \<open>
  \<open>data.mean()\<close> and \<open>data.std()\<close> of a pandas Series. The standard deviation of
  pandas is the sample one: its default \<open>ddof=1\<close> divides the sum of squared
  deviations by \<open>n - 1\<close>. Both are called on at least two values.
\<close>

definition series_mean :: "real list \<Rightarrow> real" where
  "series_mean xs = sum_list xs / real (length xs)"

definition series_var :: "real list \<Rightarrow> real" where
  "series_var xs =
     sum_list (map (\<lambda>x. (x - series_mean xs)\<^sup>2) xs) / (real (length xs) - 1)"

definition series_std :: "real list \<Rightarrow> real" where
  "series_std xs = sqrt (series_var xs)"

definition consistency_of :: "real option list \<Rightarrow> consistency_entry" where
  "consistency_of s =
     (let xs = dropna s
      in if length xs < 2
         then \<lparr> consistency_percentage = 0, anomaly_count = 0,
                message = Some ''Dados insuficientes'',
                anomaly_percentage = None, c_mean = None, c_std = None \<rparr>
         else
           let m = series_mean xs; sd = series_std xs;
               k = (if sd = 0 then 0
                    else mask_sum (map (\<lambda>x. \<bar>(x - m) / sd\<bar> > 3) xs))
           in \<lparr> consistency_percentage = (real (length xs) - real k) / real (length xs) * 100,
                anomaly_count = k,
                message = None,
                anomaly_percentage = Some (real k / real (length xs) * 100),
                c_mean = Some m, c_std = Some sd \<rparr>)"

definition calculate_consistency ::
  "calculator \<Rightarrow> string option \<Rightarrow> py_error + (string \<times> consistency_entry) list" where
  "calculate_consistency calc column =
     for_each
       (\<lambda>col. case df_getitem (self_df calc) col of
                 Inl e \<Rightarrow> Inl e
               | Inr s \<Rightarrow> Inr (col, consistency_of s))
       (select_columns (self_df calc) column)"

subsection \<open>calculate\_quality\_index\<close>

text \<open>
  Python's \<open>min(p, 100)\<close> with \<open>p\<close> first returns \<open>p\<close> when \<open>p\<close> is NaN, and
  arithmetic on NaN is NaN.
\<close>

definition quality_of ::
  "(string \<times> validity_entry) list \<Rightarrow> (string \<times> consistency_entry) list \<Rightarrow>
   string \<Rightarrow> completeness_entry \<Rightarrow> quality_entry" where
  "quality_of validity consistency col entry =
     (let comp_pct = completeness_percentage entry;
          valid_pct = (case map_of validity col of
                         None \<Rightarrow> 0 | Some v \<Rightarrow> validity_percentage v);
          cons_pct = (case map_of consistency col of
                        None \<Rightarrow> 0 | Some c \<Rightarrow> consistency_percentage c);
          comp_score = map_option (\<lambda>p. min p 100) comp_pct;
          valid_score = min valid_pct 100;
          cons_score = min cons_pct 100
      in \<lparr> quality_index =
             map_option
               (\<lambda>c. c * W_completude + valid_score * W_validade + cons_score * W_consistencia)
               comp_score,
           completeness_score = comp_score,
           validity_score = valid_score,
           consistency_score = cons_score \<rparr>)"

definition calculate_quality_index ::
  "calculator \<Rightarrow> string option \<Rightarrow> py_error + (string \<times> quality_entry) list \<times> calculator" where
  "calculate_quality_index calc column =
     (case calculate_completeness calc column of
        Inl e \<Rightarrow> Inl e
      | Inr completeness \<Rightarrow>
          (let validity = calculate_validity calc column
           in (case calculate_consistency calc column of
                 Inl e \<Rightarrow> Inl e
               | Inr consistency \<Rightarrow>
                   (let quality_indices =
                          map (\<lambda>(col, entry). (col, quality_of validity consistency col entry))
                            completeness
                    in Inr (quality_indices, calc\<lparr> self_metrics := quality_indices \<rparr>)))))"

subsection \<open>get\_overall\_quality\_index\<close>

text \<open>
  \<open>np.mean\<close> of a list of floats: NaN for the empty list and for a list that holds a
  NaN.
\<close>

definition np_mean :: "real option list \<Rightarrow> real option" where
  "np_mean vs =
     (case those vs of
        None \<Rightarrow> None
      | Some xs \<Rightarrow> if xs = [] then None else Some (sum_list xs / real (length xs)))"

record overall_quality =
  overall_quality_index :: "real option"
  recommendation :: string
  description :: string
  variable_count :: nat
  average_completeness :: "real option"
  average_validity :: "real option"
  average_consistency :: "real option"

text \<open>
  \<open>get_recommendation\<close> on a float that may be NaN: both comparisons with NaN are
  false, so the last branch is taken.
\<close>

definition get_recommendation_float :: "real option \<Rightarrow> string \<times> string" where
  "get_recommendation_float v =
     (case v of None \<Rightarrow> rec_inadequado | Some x \<Rightarrow> get_recommendation x)"

definition overall_of :: "(string \<times> quality_entry) list \<Rightarrow> overall_quality" where
  "overall_of ms =
     (let quality_indices = map (\<lambda>(col, m). quality_index m) ms;
          overall_index = (if quality_indices = [] then Some 0 else np_mean quality_indices);
          r = get_recommendation_float overall_index
      in \<lparr> overall_quality_index = overall_index,
           recommendation = fst r,
           description = snd r,
           variable_count = length ms,
           average_completeness = np_mean (map (\<lambda>(col, m). completeness_score m) ms),
           average_validity = np_mean (map (\<lambda>(col, m). Some (validity_score m)) ms),
           average_consistency = np_mean (map (\<lambda>(col, m). Some (consistency_score m)) ms) \<rparr>)"

definition get_overall_quality_index ::
  "calculator \<Rightarrow> py_error + overall_quality \<times> calculator" where
  "get_overall_quality_index calc =
     (if self_metrics calc = []
      then case calculate_quality_index calc None of
             Inl e \<Rightarrow> Inl e
           | Inr (qs, calc') \<Rightarrow> Inr (overall_of (self_metrics calc'), calc')
      else Inr (overall_of (self_metrics calc), calc))"

section \<open>Reading the results\<close>

text \<open>
  What a caller reads from a result dictionary: \<open>result['gaps']\<close> and
  \<open>result['is_sorted']\<close> of the date report, the quality index per column, the
  overall index with the variable count, and the anomaly count with the consistency
  percentage per column.
\<close>

definition get_gaps :: "date_validation \<Rightarrow> gap list option" where
  "get_gaps v = (case v of Report r \<Rightarrow> Some (gaps r) | Insufficient b m \<Rightarrow> None)"

definition get_is_sorted :: "date_validation \<Rightarrow> bool option" where
  "get_is_sorted v = (case v of Report r \<Rightarrow> Some (is_sorted r) | Insufficient b m \<Rightarrow> None)"

definition index_table ::
  "py_error + (string \<times> quality_entry) list \<times> calculator \<Rightarrow> (string \<times> real option) list" where
  "index_table res =
     (case res of Inl e \<Rightarrow> [] | Inr (qs, c) \<Rightarrow> map (\<lambda>(col, q). (col, quality_index q)) qs)"

definition overall_summary ::
  "py_error + overall_quality \<times> calculator \<Rightarrow> py_error + real option \<times> nat" where
  "overall_summary res =
     (case res of
        Inl e \<Rightarrow> Inl e
      | Inr (ov, c) \<Rightarrow> Inr (overall_quality_index ov, variable_count ov))"

definition anomaly_table ::
  "py_error + (string \<times> consistency_entry) list \<Rightarrow> (string \<times> nat \<times> real) list" where
  "anomaly_table res =
     (case res of
        Inl e \<Rightarrow> []
      | Inr ks \<Rightarrow> map (\<lambda>(col, k). (col, anomaly_count k, consistency_percentage k)) ks)"

section \<open>Notions of the specification\<close>

text \<open>A percentage clamped to \<open>[0, 100]\<close>, as the specification words the scores.\<close>

definition clamp_0_100 :: "real \<Rightarrow> real" where
  "clamp_0_100 x = max 0 (min x 100)"

text \<open>
  A run is a maximal block of nulls of the mask \<open>m\<close>: it lies inside the table, its
  length is the number of its rows, every row of it is null, and the rows just before
  and just after it (when there are such rows) are not null.
\<close>

definition run_ok :: "bool list \<Rightarrow> null_run \<Rightarrow> bool" where
  "run_ok m r \<longleftrightarrow>
     run_start r \<le> run_end r \<and> run_end r < length m \<and>
     run_length r = run_end r - run_start r + 1 \<and>
     (\<forall>i. run_start r \<le> i \<and> i \<le> run_end r \<longrightarrow> m ! i) \<and>
     (run_start r = 0 \<or> \<not> m ! (run_start r - 1)) \<and>
     (run_end r + 1 = length m \<or> \<not> m ! (run_end r + 1))"

text \<open>Runs are in order of their rows and do not overlap.\<close>

definition runs_ordered :: "null_run list \<Rightarrow> bool" where
  "runs_ordered rs \<longleftrightarrow> sorted_wrt (\<lambda>a b. run_end a < run_start b) rs"

text \<open>
  The overall index as claim C2 words it: the mean over the variables that have at
  least one non-null value, the others left out of the denominator.
\<close>

definition overall_excluding_empty ::
  "dataframe \<Rightarrow> py_error + (string \<times> quality_entry) list \<times> calculator \<Rightarrow> real option" where
  "overall_excluding_empty df res =
     (case res of
        Inl e \<Rightarrow> None
      | Inr (qs, c) \<Rightarrow>
          np_mean (map (\<lambda>(col, q). quality_index q)
                     (filter (\<lambda>(col, q). case map_of (variables df) col of
                                              None \<Rightarrow> False
                                            | Some s \<Rightarrow> dropna s \<noteq> []) qs)))"

text \<open>
  The population standard deviation (divisor \<open>n\<close>) and the anomalies it would flag, as
  claim C5 words them, next to the anomalies of the sample standard deviation that
  \<open>series_std\<close> computes.
\<close>

definition population_std :: "real list \<Rightarrow> real" where
  "population_std xs =
     sqrt (sum_list (map (\<lambda>x. (x - series_mean xs)\<^sup>2) xs) / real (length xs))"

definition population_anomalies :: "real list \<Rightarrow> real list" where
  "population_anomalies xs =
     filter (\<lambda>x. \<bar>(x - series_mean xs) / population_std xs\<bar> > 3) xs"

definition sample_anomalies :: "real list \<Rightarrow> real list" where
  "sample_anomalies xs =
     filter (\<lambda>x. \<bar>(x - series_mean xs) / series_std xs\<bar> > 3) xs"

section \<open>The invariant of the null-run loop\<close>

text \<open>
  The state of the loop of \<open>detect_missing_data_patterns\<close> after \<open>k\<close> cells: the
  closed runs are maximal runs that ended before row \<open>k - 1\<close>, and the open run, if
  any, covers the nulls from its start up to row \<open>k - 1\<close>.
\<close>

definition scan_inv :: "bool list \<Rightarrow> nat \<Rightarrow> nat option \<times> null_run list \<Rightarrow> bool" where
  "scan_inv m k st \<longleftrightarrow>
     (\<forall>r \<in> set (snd st). run_ok m r \<and> run_end r + 1 < k) \<and>
     runs_ordered (snd st) \<and>
     (case fst st of
        None \<Rightarrow> (k = 0 \<or> \<not> m ! (k - 1)) \<and>
                sum_list (map run_length (snd st)) = mask_sum (take k m)
      | Some s0 \<Rightarrow> s0 < k \<and> (\<forall>i. s0 \<le> i \<and> i < k \<longrightarrow> m ! i) \<and>
                  (s0 = 0 \<or> \<not> m ! (s0 - 1)) \<and>
                  (\<forall>r \<in> set (snd st). run_end r < s0) \<and>
                  sum_list (map run_length (snd st)) + (k - s0) = mask_sum (take k m))"

section \<open>Example tables\<close>

definition umidade :: string where
  "umidade = ''UMIDADE RELATIVA DO AR, MEDIA DIARIA (AUT)(%)''"

definition vento :: string where
  "vento = ''VENTO, RAJADA MAXIMA DIARIA (AUT)(m/s)''"

text \<open>
  Four rows, one variable with a physical range (a null, a value out of range) and
  one column without a range. The calculator is built as the application builds it,
  from the validator's results.
\<close>

definition df_example :: dataframe where
  "df_example =
     \<lparr> Data = [Some 0, Some 1, None, Some 3],
       variables = [(umidade, [Some 50, None, Some 150, Some 100]),
                    (''ESTACAO'', [None, None, None, None])] \<rparr>"

definition calc_example :: calculator where
  "calc_example = init_calculator df_example (validate_physical_limits df_example)"

text \<open>Dates with a null between them and a missing day; two consecutive days.\<close>

definition df_gap :: dataframe where
  "df_gap = \<lparr> Data = [Some 10, None, Some 11, Some 13, Some 14], variables = [] \<rparr>"

definition df_two_days :: dataframe where
  "df_two_days = \<lparr> Data = [Some 0, Some 1], variables = [] \<rparr>"

text \<open>A column whose null mask is \<open>[F, F, T, T, T, F, T]\<close>, and its two runs.\<close>

definition df_mask :: dataframe where
  "df_mask =
     \<lparr> Data = [Some 0, Some 1, Some 2, Some 3, Some 4, Some 5, Some 6],
       variables = [(umidade, [Some 1, Some 2, None, None, None, Some 3, None])] \<rparr>"

definition runs_mask :: "null_run list" where
  "runs_mask =
     [\<lparr> run_start = 2, run_end = 4, run_length = 3, start_date = Some 2, end_date = Some 4 \<rparr>,
      \<lparr> run_start = 6, run_end = 6, run_length = 1, start_date = Some 6, end_date = Some 6 \<rparr>]"

text \<open>A table with a perfect variable and a variable that has no value at all.\<close>

definition df_null :: dataframe where
  "df_null =
     \<lparr> Data = [Some 0, Some 1],
       variables = [(umidade, [Some 50, Some 50]), (vento, [None, None])] \<rparr>"

definition calc_null :: calculator where
  "calc_null = init_calculator df_null (validate_physical_limits df_null)"

text \<open>A table with a variable that has no entry in \<open>PHYSICAL_LIMITS\<close>.\<close>

definition df_unranged :: dataframe where
  "df_unranged =
     \<lparr> Data = [Some 0, Some 1],
       variables = [(umidade, [Some 50, Some 50]), (''ESTACAO'', [Some 1, Some 1])] \<rparr>"

definition calc_unranged :: calculator where
  "calc_unranged = init_calculator df_unranged (validate_physical_limits df_unranged)"

text \<open>
  Eleven values whose largest has a population z-score above 3 and a sample z-score
  below 3.
\<close>

definition xs_outlier :: "real list" where
  "xs_outlier = [0, 0, 0, 0, 0, 0, 0, 0, 0, 1, 4]"

definition df_outlier :: dataframe where
  "df_outlier =
     \<lparr> Data = map Some [0, 1, 2, 3, 4, 5, 6, 7, 8, 9, 10],
       variables = [(umidade, map Some xs_outlier)] \<rparr>"

section \<open>Theorems\<close>

text \<open>
  Claim C3. For every overall quality index value \<open>x\<close> (a real number),
  \<open>get_recommendation\<close> returns the label Adequado (Adequate) with its fixed sentence
  if and only if \<open>x \<ge> 80\<close>, Parcialmente Adequado (Partially Adequate) with its
  sentence if and only if \<open>60 \<le> x < 80\<close>, and Inadequado (Inadequate) with its
  sentence if and only if \<open>x < 60\<close>; the three labels are distinct, and the boundary
  values 60 and 80 fall in the upper band each.
\<close>

theorem get_recommendation_bands:
  "(get_recommendation x = rec_adequado \<longleftrightarrow> x \<ge> 80) \<and>
   (fst (get_recommendation x) = ''Adequado'' \<longleftrightarrow> x \<ge> 80) \<and>
   (get_recommendation x = rec_parcialmente_adequado \<longleftrightarrow> 60 \<le> x \<and> x < 80) \<and>
   (fst (get_recommendation x) = ''Parcialmente Adequado'' \<longleftrightarrow> 60 \<le> x \<and> x < 80) \<and>
   (get_recommendation x = rec_inadequado \<longleftrightarrow> x < 60) \<and>
   (fst (get_recommendation x) = ''Inadequado'' \<longleftrightarrow> x < 60) \<and>
   get_recommendation 60 = rec_parcialmente_adequado \<and>
   get_recommendation 80 = rec_adequado"
  by (simp add: get_recommendation_def rec_adequado_def rec_parcialmente_adequado_def
      rec_inadequado_def CRIT_adequado_def CRIT_parcialmente_adequado_def)

subsection \<open>Physical limits\<close>

lemma mask_counts:
  "mask_sum (between_mask lo hi s) = length (filter (\<lambda>v. \<exists>x. v = Some x \<and> lo \<le> x \<and> x \<le> hi) s) \<and>
   mask_sum (map2 (\<lambda>v n. \<not> v \<and> \<not> n) (between_mask lo hi s) (isna s)) =
     length (filter (\<lambda>v. \<exists>x. v = Some x \<and> \<not> (lo \<le> x \<and> x \<le> hi)) s) \<and>
   mask_sum (isna s) = length (filter (\<lambda>v. v = None) s)"
  by (induction s) (auto simp: mask_sum_def between_mask_def isna_def split: option.splits)

lemma mask_partition:
  "mask_sum (between_mask lo hi s) +
   mask_sum (map2 (\<lambda>v n. \<not> v \<and> \<not> n) (between_mask lo hi s) (isna s)) +
   mask_sum (isna s) = length s"
  by (induction s) (auto simp: mask_sum_def between_mask_def isna_def split: option.splits)

lemma map_of_validate_columns:
  "map_of (validate_columns limits df vs) col =
     (case map_of vs col of
        None \<Rightarrow> None
      | Some s \<Rightarrow> if col = ''Data'' then None
                  else map_option (\<lambda>b. physical_limits_of df b s) (map_of limits col))"
proof (induction vs)
  case Nil
  show ?case by simp
next
  case (Cons a vs)
  obtain c s0 where a: "a = (c, s0)" by (cases a)
  show ?case
  proof (cases "c = col")
    case True
    then show ?thesis using a Cons.IH
      by (cases "map_of limits col") (auto split: option.splits)
  next
    case False
    then show ?thesis using a Cons.IH
      by (cases "map_of limits c") (auto split: option.splits)
  qed
qed

lemma wf_column_length:
  "wf_dataframe df \<Longrightarrow> (col, s) \<in> set (variables df) \<Longrightarrow> length s = df_len df"
  by (auto simp: wf_dataframe_def list_all_iff)

lemma wf_map_of:
  "wf_dataframe df \<Longrightarrow> (col, s) \<in> set (variables df) \<Longrightarrow> map_of (variables df) col = Some s"
  by (auto simp: wf_dataframe_def df_columns_def)

lemma wf_not_Data:
  "wf_dataframe df \<Longrightarrow> (col, s) \<in> set (variables df) \<Longrightarrow> col \<noteq> ''Data''"
  by (force simp: wf_dataframe_def df_columns_def)

text \<open>
  Claim C4. In a well-formed table, every variable column \<open>col\<close> with a configured
  physical range \<open>[lo, hi]\<close> has a \<open>ValidationResult\<close>, and in it
  \<open>valid_count + invalid_count + null_count = total_count\<close>, where \<open>total_count\<close> is
  the number of rows, \<open>valid_count\<close> counts the non-null values inside the inclusive
  range, \<open>invalid_count\<close> the non-null values outside it and \<open>null_count\<close> the nulls.
\<close>

theorem validation_result_invariant:
  assumes wf: "wf_dataframe df"
    and col: "(col, s) \<in> set (variables df)"
    and lim: "map_of PHYSICAL_LIMITS col = Some (lo, hi)"
  shows "\<exists>r. map_of (validate_physical_limits df) col = Some r \<and>
           valid_count r + invalid_count r + null_count r = total_count r \<and>
           total_count r = df_len df \<and>
           valid_count r = length (filter (\<lambda>v. \<exists>x. v = Some x \<and> lo \<le> x \<and> x \<le> hi) s) \<and>
           invalid_count r =
             length (filter (\<lambda>v. \<exists>x. v = Some x \<and> \<not> (lo \<le> x \<and> x \<le> hi)) s) \<and>
           null_count r = length (filter (\<lambda>v. v = None) s)"
proof -
  let ?r = "physical_limits_of df (lo, hi) s"
  have len: "length s = df_len df" using wf col by (rule wf_column_length)
  have "map_of (validate_physical_limits df) col = Some ?r"
    unfolding validate_physical_limits_def map_of_validate_columns
    using wf_map_of [OF wf col] wf_not_Data [OF wf col] lim by simp
  moreover have "valid_count ?r + invalid_count ?r + null_count ?r = total_count ?r"
    using mask_partition [of lo hi s] len by (simp add: physical_limits_of_def Let_def)
  moreover have "total_count ?r = df_len df"
    by (simp add: physical_limits_of_def Let_def)
  moreover have
    "valid_count ?r = length (filter (\<lambda>v. \<exists>x. v = Some x \<and> lo \<le> x \<and> x \<le> hi) s) \<and>
     invalid_count ?r =
       length (filter (\<lambda>v. \<exists>x. v = Some x \<and> \<not> (lo \<le> x \<and> x \<le> hi)) s) \<and>
     null_count ?r = length (filter (\<lambda>v. v = None) s)"
    using mask_counts [of lo hi s] by (simp add: physical_limits_of_def Let_def)
  ultimately show ?thesis by blast
qed

theorem validation_result_invariant_witness:
  "wf_dataframe df_example \<and>
   (umidade, [Some 50, None, Some 150, Some 100]) \<in> set (variables df_example) \<and>
   map_of PHYSICAL_LIMITS umidade = Some (0, 100) \<and>
   (\<exists>r. map_of (validate_physical_limits df_example) umidade = Some r \<and>
        valid_count r + invalid_count r + null_count r = total_count r \<and>
        total_count r = 4 \<and> valid_count r = 2 \<and> invalid_count r = 1 \<and> null_count r = 1)"
proof -
  have wf: "wf_dataframe df_example"
    by (simp add: df_example_def wf_dataframe_def df_columns_def df_len_def umidade_def)
  have col: "(umidade, [Some 50, None, Some 150, Some 100]) \<in> set (variables df_example)"
    by (simp add: df_example_def)
  have lim: "map_of PHYSICAL_LIMITS umidade = Some (0, 100)"
    by (simp add: PHYSICAL_LIMITS_def umidade_def deg_def)
  have len: "df_len df_example = 4" by (simp add: df_example_def df_len_def)
  from validation_result_invariant [OF wf col lim] wf col lim len show ?thesis
    by (simp add: numeral_2_eq_2)
qed

subsection \<open>Date sequence\<close>

lemmas date_sequence_defs =
  validate_date_sequence_def find_gaps_def List.map_filter_simps enumerate_simps Let_def
  ge_zero_def le_zero_def

lemma diff_days_ge_zero: "list_all ge_zero (diff_days ds) \<longleftrightarrow> ds = []"
  by (cases ds) (simp_all add: ge_zero_def)

lemma diff_days_le_zero: "list_all le_zero (diff_days ds) \<longleftrightarrow> ds = []"
  by (cases ds) (simp_all add: le_zero_def)

text \<open>
  The first cell of \<open>diff_days\<close> is NaN and fails both comparisons, so neither
  \<open>all()\<close> holds on two or more dates: every report has \<open>is_sorted = False\<close>.
\<close>

lemma is_sorted_always_false:
  "validate_date_sequence df = Report r \<Longrightarrow> \<not> is_sorted r"
  by (auto simp: validate_date_sequence_def Let_def diff_days_ge_zero diff_days_le_zero
      split: if_splits)

text \<open>
  Claim C6 says that \<open>is_sorted\<close> is true if and only if the non-null dates are
  entirely non-decreasing or entirely non-increasing. On the table whose dates are
  day 0 and day 1, a non-decreasing sequence, the code reports \<open>is_sorted = False\<close>.
\<close>

theorem two_ascending_dates_not_sorted:
  "dropna (Data df_two_days) = [0, 1] \<and> sorted (dropna (Data df_two_days)) \<and>
   get_is_sorted (validate_date_sequence df_two_days) = Some False"
  by (simp add: df_two_days_def get_is_sorted_def date_sequence_defs)

text \<open>
  Claim C7, as stated: on the dates \<open>[D1, D1+1, D1+3, D1+4]\<close> exactly one gap is
  reported, at the third date, with gap size 3. At \<open>D1 = 10\<close> the reported gap is
  at day 13 with \<open>gap_days = 2\<close>, not 3.
\<close>

theorem date_gap_size_three_counterexample:
  "dropna (Data df_gap) = [10, 10 + 1, 10 + 3, 10 + 4] \<and>
   get_gaps (validate_date_sequence df_gap) = Some [\<lparr> date = 13, gap_days = 2 \<rparr>] \<and>
   get_gaps (validate_date_sequence df_gap) \<noteq> Some [\<lparr> date = 13, gap_days = 3 \<rparr>]"
  by (simp add: df_gap_def get_gaps_def date_sequence_defs eval_nat_numeral)

text \<open>
  Claim C7, amended. For every table whose non-null dates are
  \<open>[D1, D1+1, D1+3, D1+4]\<close>, \<open>validate_date_sequence\<close> reports exactly one gap,
  located at the third date \<open>D1+3\<close>, with \<open>gap_days = 2\<close>: the number of days
  between the third date and the one before it.
\<close>

theorem date_gap_is_day_delta:
  assumes "dropna (Data df) = [d, d + 1, d + 3, d + 4]"
  shows "\<exists>r. validate_date_sequence df = Report r \<and>
             gaps r = [\<lparr> date = d + 3, gap_days = 2 \<rparr>] \<and> gap_count r = 1"
  using assms by (simp add: date_sequence_defs eval_nat_numeral)

theorem date_gap_is_day_delta_witness:
  "dropna (Data df_gap) = [10, 10 + 1, 10 + 3, 10 + 4] \<and>
   (\<exists>r. validate_date_sequence df_gap = Report r \<and>
        gaps r = [\<lparr> date = 13, gap_days = 2 \<rparr>] \<and> gap_count r = 1)"
proof -
  have h: "dropna (Data df_gap) = [10, 10 + 1, 10 + 3, 10 + 4]"
    by (simp add: df_gap_def)
  from date_gap_is_day_delta [OF h] h show ?thesis by simp
qed

subsection \<open>Numeric repair in the loader\<close>

lemmas to_numeric_defs =
  convert_column_def fix_malformed_numbers_def to_numeric_def parse_unsigned_def is_digit_def
  digit_val_def digits_value_def Let_def

text \<open>
  Claim C8 says that the field \<open>",5"\<close> is repaired to a cell holding 0.5. The repair
  gives \<open>"0,5"\<close>; the conversion that follows does not read the comma as a decimal
  separator and coerces the repaired text to null. A cell written with a point
  converts.
\<close>

theorem comma_five_becomes_null:
  "fix_malformed_numbers (Some '',5'') = Some ''0,5'' \<and>
   to_numeric (Some ''0,5'') = None \<and>
   convert_column [Some '',5'', Some ''abc'', Some ''0.5''] = [None, None, Some (1 / 2)]"
  by (simp add: to_numeric_defs)

subsection \<open>Missing-data patterns\<close>

lemma mask_sum_take_Suc:
  "k < length m \<Longrightarrow> mask_sum (take (Suc k) m) = mask_sum (take k m) + (if m ! k then 1 else 0)"
  by (simp add: mask_sum_def take_Suc_conv_app_nth)

lemma scan_inv_init: "scan_inv m 0 (None, [])"
  by (simp add: scan_inv_def runs_ordered_def mask_sum_def)

lemma runs_ordered_snoc:
  "runs_ordered (rs @ [r]) \<longleftrightarrow> runs_ordered rs \<and> (\<forall>a \<in> set rs. run_end a < run_start r)"
  by (simp add: runs_ordered_def sorted_wrt_append)

lemma scan_inv_step:
  assumes inv: "scan_inv m k st" and k: "k < length m"
  shows "scan_inv m (Suc k) (null_step df (k, m ! k) st)"
proof (cases "fst st")
  case None
  show ?thesis
  proof (cases "m ! k")
    case True
    with None inv k show ?thesis
      by (auto simp: scan_inv_def null_step_def Let_def mask_sum_take_Suc less_Suc_eq)
  next
    case False
    with None inv k show ?thesis
      by (auto simp: scan_inv_def null_step_def Let_def mask_sum_take_Suc less_Suc_eq)
  qed
next
  case (Some s0)
  show ?thesis
  proof (cases "m ! k")
    case True
    with Some inv k show ?thesis
      by (auto simp: scan_inv_def null_step_def Let_def mask_sum_take_Suc less_Suc_eq)
  next
    case False
    from inv Some have s0: "s0 < k" and nulls: "\<forall>i. s0 \<le> i \<and> i < k \<longrightarrow> m ! i"
      and left: "s0 = 0 \<or> \<not> m ! (s0 - 1)"
      and before: "\<forall>r \<in> set (snd st). run_end r < s0"
      and total: "sum_list (map run_length (snd st)) + (k - s0) = mask_sum (take k m)"
      and old: "\<forall>r \<in> set (snd st). run_ok m r \<and> run_end r + 1 < k"
      and ord: "runs_ordered (snd st)"
      by (auto simp: scan_inv_def)
    let ?r = "\<lparr> run_start = s0, run_end = k - 1, run_length = k - s0,
                start_date = loc_Data df s0, end_date = loc_Data df (k - 1) \<rparr>"
    have step: "null_step df (k, m ! k) st = (None, snd st @ [?r])"
      using Some False by (simp add: null_step_def Let_def)
    have ok: "run_ok m ?r"
      using s0 k nulls left False by (auto simp: run_ok_def)
    have "scan_inv m (Suc k) (None, snd st @ [?r])"
      unfolding scan_inv_def
      using ok old ord before total s0 k False
      by (auto simp: runs_ordered_snoc mask_sum_take_Suc)
    with step show ?thesis by simp
  qed
qed

lemma scan_inv_fold:
  "scan_inv m k st \<Longrightarrow> bs = drop k m \<Longrightarrow> k \<le> length m \<Longrightarrow>
   scan_inv m (length m) (fold (null_step df) (enumerate k bs) st)"
proof (induction bs arbitrary: k st)
  case Nil
  then show ?case by simp
next
  case (Cons b bs)
  from Cons.prems have k: "k < length m" by (cases "k < length m") auto
  from Cons.prems(2) Cons_nth_drop_Suc [OF k] have "b # bs = m ! k # drop (Suc k) m"
    by simp
  then have b: "b = m ! k" and bs: "bs = drop (Suc k) m" by simp_all
  have "scan_inv m (Suc k) (null_step df (k, m ! k) st)"
    using Cons.prems(1) k by (rule scan_inv_step)
  from Cons.IH [OF this bs] k b show ?case by simp
qed

lemma scan_inv_close:
  assumes inv: "scan_inv m (length m) st" and len: "df_len df = length m"
  shows "(\<forall>r \<in> set (close_run df st). run_ok m r) \<and>
         runs_ordered (close_run df st) \<and>
         sum_list (map run_length (close_run df st)) = mask_sum m \<and>
         (m \<noteq> [] \<and> last m \<longrightarrow>
            close_run df st \<noteq> [] \<and> run_end (last (close_run df st)) = length m - 1)"
proof (cases "fst st")
  case None
  with inv show ?thesis
    by (auto simp: scan_inv_def close_run_def last_conv_nth)
next
  case (Some s0)
  from inv Some have s0: "s0 < length m" and nulls: "\<forall>i. s0 \<le> i \<and> i < length m \<longrightarrow> m ! i"
    and left: "s0 = 0 \<or> \<not> m ! (s0 - 1)"
    and before: "\<forall>r \<in> set (snd st). run_end r < s0"
    and total: "sum_list (map run_length (snd st)) + (length m - s0) = mask_sum (take (length m) m)"
    and old: "\<forall>r \<in> set (snd st). run_ok m r"
    and ord: "runs_ordered (snd st)"
    by (auto simp: scan_inv_def)
  let ?r = "\<lparr> run_start = s0, run_end = length m - 1, run_length = length m - s0,
              start_date = loc_Data df s0, end_date = loc_Data df (length m - 1) \<rparr>"
  have close: "close_run df st = snd st @ [?r]"
    using Some len by (simp add: close_run_def)
  have inside: "i < length m" if "i \<le> length m - 1" for i
    using that s0 by arith
  have ok: "run_ok m ?r"
    using s0 nulls left inside by (auto simp: run_ok_def)
  show ?thesis
    unfolding close
    using ok old ord before total by (auto simp: runs_ordered_snoc)
qed

lemma null_runs_of_mask:
  assumes len: "df_len df = length m"
  shows "(\<forall>r \<in> set (close_run df (fold (null_step df) (enumerate 0 m) (None, []))). run_ok m r) \<and>
         runs_ordered (close_run df (fold (null_step df) (enumerate 0 m) (None, []))) \<and>
         sum_list (map run_length (close_run df (fold (null_step df) (enumerate 0 m) (None, [])))) = mask_sum m \<and>
         (m \<noteq> [] \<and> last m \<longrightarrow>
            close_run df (fold (null_step df) (enumerate 0 m) (None, [])) \<noteq> [] \<and>
            run_end (last (close_run df (fold (null_step df) (enumerate 0 m) (None, [])))) = length m - 1)"
proof -
  have "scan_inv m (length m) (fold (null_step df) (enumerate 0 m) (None, []))"
    using scan_inv_init by (rule scan_inv_fold) simp_all
  from scan_inv_close [OF this len] show ?thesis .
qed

lemma mask_sum_zero: "mask_sum m = 0 \<longleftrightarrow> (\<forall>b \<in> set m. \<not> b)"
  by (induction m) (auto simp: mask_sum_def)

lemma missing_pattern_runs:
  assumes len: "df_len df = length s"
  shows "(\<forall>r \<in> set (consecutive_nulls (missing_pattern_of df s)). run_ok (isna s) r) \<and>
         runs_ordered (consecutive_nulls (missing_pattern_of df s)) \<and>
         sum_list (map run_length (consecutive_nulls (missing_pattern_of df s))) =
           mp_null_count (missing_pattern_of df s) \<and>
         mp_null_count (missing_pattern_of df s) = length (filter (\<lambda>v. v = None) s) \<and>
         (s \<noteq> [] \<and> last s = None \<longrightarrow>
            consecutive_nulls (missing_pattern_of df s) \<noteq> [] \<and>
            run_end (last (consecutive_nulls (missing_pattern_of df s))) = length s - 1)"
proof (cases "mask_sum (isna s) = 0")
  case True
  have cnt: "mask_sum (isna s) = length (filter (\<lambda>v. v = None) s)"
    by (simp add: mask_sum_def isna_def filter_map comp_def)
  have "s \<noteq> [] \<Longrightarrow> last s \<noteq> None"
    using True by (auto simp: mask_sum_zero isna_def)
  with True cnt show ?thesis
    by (auto simp: missing_pattern_of_def Let_def runs_ordered_def)
next
  case False
  have cnt: "mask_sum (isna s) = length (filter (\<lambda>v. v = None) s)"
    by (simp add: mask_sum_def isna_def filter_map comp_def)
  have len': "df_len df = length (isna s)" using len by (simp add: isna_def)
  have last: "s \<noteq> [] \<Longrightarrow> last (isna s) = (last s = None)"
    by (simp add: isna_def last_map)
  from null_runs_of_mask [OF len'] False cnt last show ?thesis
    by (auto simp: missing_pattern_of_def Let_def isna_def)
qed


lemma map_of_detect_missing:
  "map_of (map (\<lambda>(c, s). (c, f s)) (filter (\<lambda>(c, s). c \<noteq> d) vs)) col =
     (if col = d then None else map_option f (map_of vs col))"
  by (induction vs) auto

lemma missing_example:
  "isna [Some (1::real), Some 2, None, None, None, Some 3, None] =
     [False, False, True, True, True, False, True] \<and>
   consecutive_nulls
     (missing_pattern_of df_mask [Some 1, Some 2, None, None, None, Some 3, None]) = runs_mask"
  by (simp add: missing_pattern_of_def isna_def mask_sum_def Let_def enumerate_simps
      null_step_def close_run_def df_mask_def df_len_def loc_Data_def runs_mask_def)

text \<open>
  Claim C9. For every variable column \<open>s\<close> of a well-formed table, the list of
  consecutive-null runs of \<open>detect_missing_data_patterns\<close> consists of maximal runs
  of nulls (\<open>run_ok\<close>), is ordered by row and non-overlapping (\<open>runs_ordered\<close>), and
  its lengths sum to \<open>null_count\<close>, the number of nulls of the column; when the last
  cell is null, the last run ends at the last row. In particular the column whose
  null mask is \<open>[F,F,T,T,T,F,T]\<close> yields exactly two runs: rows 2 to 4 with length
  3, and row 6 with length 1.
\<close>

theorem missing_runs_partition_nulls:
  assumes wf: "wf_dataframe df" and col: "(col, s) \<in> set (variables df)"
  shows "(\<exists>p. map_of (detect_missing_data_patterns df) col = Some p \<and>
            (\<forall>r \<in> set (consecutive_nulls p). run_ok (isna s) r) \<and>
            runs_ordered (consecutive_nulls p) \<and>
            sum_list (map run_length (consecutive_nulls p)) = mp_null_count p \<and>
            mp_null_count p = length (filter (\<lambda>v. v = None) s) \<and>
            (s \<noteq> [] \<and> last s = None \<longrightarrow>
               consecutive_nulls p \<noteq> [] \<and>
               run_end (last (consecutive_nulls p)) = length s - 1)) \<and>
         isna [Some (1::real), Some 2, None, None, None, Some 3, None] =
           [False, False, True, True, True, False, True] \<and>
         map_of (detect_missing_data_patterns df_mask) umidade =
           Some \<lparr> mp_null_count = 4, null_percentage = Some (400 / 7),
                  consecutive_nulls = runs_mask \<rparr>"
proof -
  have len: "df_len df = length s" using wf col by (simp add: wf_column_length)
  have "map_of (detect_missing_data_patterns df) col = Some (missing_pattern_of df s)"
    unfolding detect_missing_data_patterns_def map_of_detect_missing
    using wf_map_of [OF wf col] wf_not_Data [OF wf col] by simp
  with missing_pattern_runs [OF len] have general:
    "\<exists>p. map_of (detect_missing_data_patterns df) col = Some p \<and>
            (\<forall>r \<in> set (consecutive_nulls p). run_ok (isna s) r) \<and>
            runs_ordered (consecutive_nulls p) \<and>
            sum_list (map run_length (consecutive_nulls p)) = mp_null_count p \<and>
            mp_null_count p = length (filter (\<lambda>v. v = None) s) \<and>
            (s \<noteq> [] \<and> last s = None \<longrightarrow>
               consecutive_nulls p \<noteq> [] \<and>
               run_end (last (consecutive_nulls p)) = length s - 1)"
    by blast
  have example: "map_of (detect_missing_data_patterns df_mask) umidade =
           Some \<lparr> mp_null_count = 4, null_percentage = Some (400 / 7),
                  consecutive_nulls = runs_mask \<rparr>"
    by (simp add: detect_missing_data_patterns_def missing_pattern_of_def isna_def mask_sum_def
        Let_def enumerate_simps null_step_def close_run_def df_mask_def df_len_def loc_Data_def
        runs_mask_def np_percentage_def umidade_def)
  have "isna [Some (1::real), Some 2, None, None, None, Some 3, None] =
           [False, False, True, True, True, False, True]"
    by (simp add: isna_def)
  with general example show ?thesis by blast
qed

theorem missing_runs_partition_nulls_witness:
  "wf_dataframe df_mask \<and>
   (umidade, [Some 1, Some 2, None, None, None, Some 3, None]) \<in> set (variables df_mask) \<and>
   (\<exists>p. map_of (detect_missing_data_patterns df_mask) umidade = Some p \<and>
        consecutive_nulls p = runs_mask \<and>
        (\<forall>r \<in> set (consecutive_nulls p).
           run_ok (isna [Some (1::real), Some 2, None, None, None, Some 3, None]) r) \<and>
        runs_ordered (consecutive_nulls p) \<and>
        sum_list (map run_length (consecutive_nulls p)) = 4 \<and> mp_null_count p = 4 \<and>
        run_end (last (consecutive_nulls p)) = 6)"
proof -
  have wf: "wf_dataframe df_mask"
    by (simp add: df_mask_def wf_dataframe_def df_columns_def df_len_def umidade_def)
  have col: "(umidade, [Some 1, Some 2, None, None, None, Some 3, None]) \<in> set (variables df_mask)"
    by (simp add: df_mask_def)
  from missing_runs_partition_nulls [OF wf col] wf col show ?thesis
    by auto
qed

subsection \<open>Quality metrics\<close>

lemma for_each_Inr:
  "(\<And>x. x \<in> set xs \<Longrightarrow> f x = Inr (g x)) \<Longrightarrow> for_each f xs = Inr (map g xs)"
  by (induction xs) simp_all

lemma map_of_keyed:
  "map_of (map (\<lambda>c. (c, f c)) cols) col = (if col \<in> set cols then Some (f col) else None)"
  by (induction cols) auto

lemma map_of_map_filter_keyed:
  "map_of (List.map_filter (\<lambda>c. case g c of None \<Rightarrow> None | Some r \<Rightarrow> Some (c, h r)) cols) col =
     (if col \<in> set cols then map_option h (g col) else None)"
  by (induction cols) (auto simp: List.map_filter_simps split: option.splits)

lemma wf_non_date_columns:
  "wf_dataframe df \<Longrightarrow> non_date_columns df = map fst (variables df)"
  by (force simp: wf_dataframe_def non_date_columns_def df_columns_def filter_id_conv)

text \<open>The quality entry the loop body computes for a column that the table has.\<close>

lemma calculate_quality_index_structure:
  assumes present: "\<And>c. c \<in> set (select_columns (self_df calc) column) \<Longrightarrow>
                      \<exists>s. map_of (variables (self_df calc)) c = Some s"
  shows "calculate_completeness calc column =
           Inr (map (\<lambda>c. (c, completeness_of (self_df calc) (the (map_of (variables (self_df calc)) c))))
                  (select_columns (self_df calc) column)) \<and>
         calculate_consistency calc column =
           Inr (map (\<lambda>c. (c, consistency_of (the (map_of (variables (self_df calc)) c))))
                  (select_columns (self_df calc) column)) \<and>
         calculate_quality_index calc column =
           Inr (map (\<lambda>c. (c, quality_of (calculate_validity calc column)
                               (map (\<lambda>c. (c, consistency_of (the (map_of (variables (self_df calc)) c))))
                                  (select_columns (self_df calc) column))
                               c (completeness_of (self_df calc) (the (map_of (variables (self_df calc)) c)))))
                  (select_columns (self_df calc) column),
                calc\<lparr> self_metrics :=
                  map (\<lambda>c. (c, quality_of (calculate_validity calc column)
                               (map (\<lambda>c. (c, consistency_of (the (map_of (variables (self_df calc)) c))))
                                  (select_columns (self_df calc) column))
                               c (completeness_of (self_df calc) (the (map_of (variables (self_df calc)) c)))))
                  (select_columns (self_df calc) column) \<rparr>)"
proof -
  let ?df = "self_df calc"
  let ?cols = "select_columns ?df column"
  let ?col = "\<lambda>c. the (map_of (variables ?df) c)"
  have get: "df_getitem ?df c = Inr (?col c)" if "c \<in> set ?cols" for c
    using present [OF that] by (auto simp: df_getitem_def)
  have comp: "calculate_completeness calc column =
      Inr (map (\<lambda>c. (c, completeness_of ?df (?col c))) ?cols)"
    unfolding calculate_completeness_def
    by (rule for_each_Inr) (simp add: get)
  have cons: "calculate_consistency calc column =
      Inr (map (\<lambda>c. (c, consistency_of (?col c))) ?cols)"
    unfolding calculate_consistency_def
    by (rule for_each_Inr) (simp add: get)
  have "calculate_quality_index calc column =
      Inr (map (\<lambda>c. (c, quality_of (calculate_validity calc column)
                          (map (\<lambda>c. (c, consistency_of (?col c))) ?cols) c
                          (completeness_of ?df (?col c)))) ?cols,
           calc\<lparr> self_metrics :=
             map (\<lambda>c. (c, quality_of (calculate_validity calc column)
                          (map (\<lambda>c. (c, consistency_of (?col c))) ?cols) c
                          (completeness_of ?df (?col c)))) ?cols \<rparr>)"
    unfolding calculate_quality_index_def comp cons
    by (simp add: Let_def comp_def)
  with comp cons show ?thesis by simp
qed

lemma selected_present:
  assumes wf: "wf_dataframe df" and col: "(col, s) \<in> set (variables df)"
    and sel: "column = None \<or> column = Some col"
  shows "col \<in> set (select_columns df column) \<and>
         (\<forall>c \<in> set (select_columns df column). \<exists>t. map_of (variables df) c = Some t)"
proof -
  have all: "\<exists>t. map_of (variables df) c = Some t" if "c \<in> set (map fst (variables df))" for c
    using that by (metis map_of_eq_None_iff not_Some_eq set_map)
  have colmem: "col \<in> set (map fst (variables df))" using col by force
  have "select_columns df column = map fst (variables df) \<or>
        select_columns df column = [col]"
    using sel wf_non_date_columns [OF wf] by (auto simp: select_columns_def)
  then show ?thesis
  proof
    assume "select_columns df column = map fst (variables df)"
    with colmem all show ?thesis by simp
  next
    assume "select_columns df column = [col]"
    with all [OF colmem] show ?thesis by simp
  qed
qed

lemma quality_index_entry:
  assumes wf: "wf_dataframe df" and calc: "self_df calc = df"
    and col: "(col, s) \<in> set (variables df)"
    and sel: "column = None \<or> column = Some col"
  shows "\<exists>cs ks qs.
           calculate_completeness calc column = Inr cs \<and>
           map_of cs col = Some (completeness_of df s) \<and>
           map_of (calculate_validity calc column) col =
             map_option validity_of (map_of (self_validation_results calc) col) \<and>
           calculate_consistency calc column = Inr ks \<and>
           map_of ks col = Some (consistency_of s) \<and>
           calculate_quality_index calc column = Inr (qs, calc\<lparr> self_metrics := qs \<rparr>) \<and>
           map fst qs = select_columns df column \<and>
           map_of qs col =
             Some (quality_of (calculate_validity calc column) ks col (completeness_of df s))"
proof -
  from selected_present [OF wf col sel]
  have mem: "col \<in> set (select_columns df column)"
    and present: "\<And>c. c \<in> set (select_columns (self_df calc) column) \<Longrightarrow>
                     \<exists>t. map_of (variables (self_df calc)) c = Some t"
    by (auto simp: calc)
  have s: "the (map_of (variables df) col) = s"
    using wf_map_of [OF wf col] by simp
  have v: "map_of (calculate_validity calc column) col =
             map_option validity_of (map_of (self_validation_results calc) col)"
    unfolding calculate_validity_def map_of_map_filter_keyed using mem by (simp add: calc)
  from calculate_quality_index_structure [OF present] mem s v show ?thesis
    by (simp add: calc map_of_keyed comp_def)
qed

lemma mask_sum_le: "mask_sum m \<le> length m"
  by (simp add: mask_sum_def)

lemma consistency_percentage_nonneg: "0 \<le> consistency_percentage (consistency_of s)"
proof -
  have "real (mask_sum (map P xs)) \<le> real (length xs)" for P :: "real \<Rightarrow> bool" and xs
    using mask_sum_le [of "map P xs"] by simp
  then show ?thesis
    by (auto simp: consistency_of_def Let_def)
qed

lemma validity_percentage_nonneg: "0 \<le> validity_percentage (validity_of r)"
  by (simp add: validity_of_def Let_def)

lemma completeness_percentage_Some:
  "0 < df_len df \<Longrightarrow>
   \<exists>cp. completeness_percentage (completeness_of df s) = Some cp \<and> 0 \<le> cp"
  by (simp add: completeness_of_def Let_def np_percentage_def)

lemma clamp_nonneg: "0 \<le> x \<Longrightarrow> min x 100 = clamp_0_100 x"
  by (simp add: clamp_0_100_def)

text \<open>
  Claim C1. For every variable column of a well-formed, non-empty table whose
  completeness, validity and consistency percentages are computed (the variable has
  a validation result), \<open>calculate_quality_index\<close> returns for it
  \<open>quality_index = completeness_score * 0.4 + validity_score * 0.4 +
  consistency_score * 0.2\<close>, where each score is the corresponding percentage, as
  returned by \<open>calculate_completeness\<close>, \<open>calculate_validity\<close> and
  \<open>calculate_consistency\<close>, clamped to \<open>[0, 100]\<close>. It holds for the call on all
  columns and for the call on that one column.
\<close>

theorem quality_index_weighted_sum:
  assumes wf: "wf_dataframe df" and calc: "self_df calc = df"
    and col: "(col, s) \<in> set (variables df)"
    and sel: "column = None \<or> column = Some col"
    and rows: "0 < df_len df"
    and valid: "map_of (self_validation_results calc) col = Some r"
  shows "\<exists>cs ks qs calc' c v k q cp.
           calculate_completeness calc column = Inr cs \<and> map_of cs col = Some c \<and>
           completeness_percentage c = Some cp \<and>
           map_of (calculate_validity calc column) col = Some v \<and>
           calculate_consistency calc column = Inr ks \<and> map_of ks col = Some k \<and>
           calculate_quality_index calc column = Inr (qs, calc') \<and> map_of qs col = Some q \<and>
           completeness_score q = Some (clamp_0_100 cp) \<and>
           validity_score q = clamp_0_100 (validity_percentage v) \<and>
           consistency_score q = clamp_0_100 (consistency_percentage k) \<and>
           quality_index q =
             Some (clamp_0_100 cp * (4 / 10) + clamp_0_100 (validity_percentage v) * (4 / 10) +
                   clamp_0_100 (consistency_percentage k) * (2 / 10))"
proof -
  from quality_index_entry [OF wf calc col sel] obtain cs ks qs where
    cs: "calculate_completeness calc column = Inr cs" "map_of cs col = Some (completeness_of df s)"
    and v: "map_of (calculate_validity calc column) col = Some (validity_of r)"
    and ks: "calculate_consistency calc column = Inr ks" "map_of ks col = Some (consistency_of s)"
    and qs: "calculate_quality_index calc column = Inr (qs, calc\<lparr> self_metrics := qs \<rparr>)"
      "map_of qs col =
         Some (quality_of (calculate_validity calc column) ks col (completeness_of df s))"
    using valid by auto
  from completeness_percentage_Some [OF rows] obtain cp where
    cp: "completeness_percentage (completeness_of df s) = Some cp" "0 \<le> cp" by blast
  let ?q = "quality_of (calculate_validity calc column) ks col (completeness_of df s)"
  have q1: "completeness_score ?q = Some (clamp_0_100 cp)"
    using cp by (simp add: quality_of_def Let_def clamp_nonneg)
  have q2: "validity_score ?q = clamp_0_100 (validity_percentage (validity_of r))"
    using v validity_percentage_nonneg [of r] by (simp add: quality_of_def Let_def clamp_nonneg)
  have q3: "consistency_score ?q = clamp_0_100 (consistency_percentage (consistency_of s))"
    using ks consistency_percentage_nonneg [of s]
    by (simp add: quality_of_def Let_def clamp_nonneg)
  have q4: "quality_index ?q =
      Some (clamp_0_100 cp * (4 / 10) +
            clamp_0_100 (validity_percentage (validity_of r)) * (4 / 10) +
            clamp_0_100 (consistency_percentage (consistency_of s)) * (2 / 10))"
    using cp v ks validity_percentage_nonneg [of r] consistency_percentage_nonneg [of s]
    by (simp add: quality_of_def Let_def clamp_nonneg W_completude_def W_validade_def
        W_consistencia_def)
  from cs v ks qs cp q1 q2 q3 q4 show ?thesis by blast
qed

lemma validate_example:
  "validate_physical_limits df_example =
     [(umidade, \<lparr> valid_count = 2, invalid_count = 1, null_count = 1, total_count = 4,
                  valid_percentage = Some 50, invalid_indices = [2],
                  min_limit = 0, max_limit = 100 \<rparr>)]"
  by (simp add: df_example_def validate_physical_limits_def PHYSICAL_LIMITS_def deg_def
      physical_limits_of_def Let_def between_mask_def isna_def mask_sum_def mask_indices_def
      df_len_def np_percentage_def enumerate_eq_zip umidade_def)

theorem quality_index_weighted_sum_witness:
  "wf_dataframe df_example \<and> self_df calc_example = df_example \<and>
   (umidade, [Some 50, None, Some 150, Some 100]) \<in> set (variables df_example) \<and>
   0 < df_len df_example \<and>
   (\<exists>r. map_of (self_validation_results calc_example) umidade = Some r) \<and>
   (\<exists>cs ks qs calc' c v k q cp.
      calculate_completeness calc_example None = Inr cs \<and> map_of cs umidade = Some c \<and>
      completeness_percentage c = Some cp \<and>
      map_of (calculate_validity calc_example None) umidade = Some v \<and>
      calculate_consistency calc_example None = Inr ks \<and> map_of ks umidade = Some k \<and>
      calculate_quality_index calc_example None = Inr (qs, calc') \<and>
      map_of qs umidade = Some q \<and>
      quality_index q =
        Some (clamp_0_100 cp * (4 / 10) + clamp_0_100 (validity_percentage v) * (4 / 10) +
              clamp_0_100 (consistency_percentage k) * (2 / 10)))"
proof -
  have wf: "wf_dataframe df_example"
    by (simp add: df_example_def wf_dataframe_def df_columns_def df_len_def umidade_def)
  have calc: "self_df calc_example = df_example"
    by (simp add: calc_example_def init_calculator_def)
  have col: "(umidade, [Some 50, None, Some 150, Some 100]) \<in> set (variables df_example)"
    by (simp add: df_example_def)
  have rows: "0 < df_len df_example" by (simp add: df_example_def df_len_def)
  have valid: "map_of (self_validation_results calc_example) umidade =
      Some \<lparr> valid_count = 2, invalid_count = 1, null_count = 1, total_count = 4,
             valid_percentage = Some 50, invalid_indices = [2],
             min_limit = 0, max_limit = 100 \<rparr>"
    by (simp add: calc_example_def init_calculator_def validate_example)
  have sel: "None = None \<or> None = Some umidade" by simp
  from quality_index_weighted_sum [OF wf calc col sel rows valid] wf calc col rows valid
  show ?thesis by blast
qed

lemma np_mean_Some:
  "xs \<noteq> [] \<Longrightarrow> np_mean (map Some xs) = Some (sum_list xs / real (length xs))"
proof -
  have "those (map Some xs) = Some xs" by (induction xs) simp_all
  then show "xs \<noteq> [] \<Longrightarrow> ?thesis" by (simp add: np_mean_def)
qed

lemma quality_index_Some:
  "0 < df_len df \<Longrightarrow> \<exists>x. quality_index (quality_of V K c (completeness_of df t)) = Some x"
  by (simp add: quality_of_def completeness_of_def np_percentage_def Let_def)

text \<open>On a fresh calculator the overall index is computed from all selected columns.\<close>

lemma overall_of_fresh:
  assumes wf: "wf_dataframe df" and calc: "self_df calc = df" and fresh: "self_metrics calc = []"
  shows "\<exists>qs. calculate_quality_index calc None = Inr (qs, calc\<lparr> self_metrics := qs \<rparr>) \<and>
              get_overall_quality_index calc = Inr (overall_of qs, calc\<lparr> self_metrics := qs \<rparr>) \<and>
              length qs = length (variables df) \<and>
              (0 < df_len df \<longrightarrow> (\<exists>xs. map (\<lambda>(c, q). quality_index q) qs = map Some xs))"
proof -
  have cols: "select_columns df None = map fst (variables df)"
    using wf_non_date_columns [OF wf] by (simp add: select_columns_def)
  have present: "\<exists>t. map_of (variables (self_df calc)) c = Some t"
    if "c \<in> set (select_columns (self_df calc) None)" for c
    using that unfolding calc cols by (metis map_of_eq_None_iff not_Some_eq set_map)
  define qs where "qs = map (\<lambda>c. (c, quality_of (calculate_validity calc None)
      (map (\<lambda>c. (c, consistency_of (the (map_of (variables df) c)))) (map fst (variables df)))
      c (completeness_of df (the (map_of (variables df) c))))) (map fst (variables df))"
  have res: "calculate_quality_index calc None = Inr (qs, calc\<lparr> self_metrics := qs \<rparr>)"
    using calculate_quality_index_structure [of calc None, OF present] by (simp add: calc cols qs_def)
  have ov: "get_overall_quality_index calc = Inr (overall_of qs, calc\<lparr> self_metrics := qs \<rparr>)"
    by (simp add: get_overall_quality_index_def fresh res)
  have len: "length qs = length (variables df)" by (simp add: qs_def)
  have some: "\<exists>xs. map (\<lambda>(c, q). quality_index q) qs = map Some xs" if rows: "0 < df_len df"
  proof -
    have "\<forall>p \<in> set qs. \<exists>x. quality_index (snd p) = Some x"
      using quality_index_Some [OF rows] by (auto simp: qs_def)
    then have "map (\<lambda>(c, q). quality_index q) qs =
        map Some (map (\<lambda>(c, q). the (quality_index q)) qs)"
      by (induction qs) auto
    then show ?thesis by blast
  qed
  show ?thesis
    using res ov len some by (intro exI [of _ qs]) simp
qed

lemma overall_of_index:
  "overall_quality_index (overall_of qs) =
     (if qs = [] then Some 0 else np_mean (map (\<lambda>(c, q). quality_index q) qs)) \<and>
   variable_count (overall_of qs) = length qs"
  by (simp add: overall_of_def Let_def)

lemmas metrics_defs =
  init_calculator_def calculate_quality_index_def calculate_completeness_def
  calculate_validity_def calculate_consistency_def get_overall_quality_index_def
  select_columns_def non_date_columns_def df_columns_def df_getitem_def df_len_def
  completeness_of_def validity_of_def consistency_of_def quality_of_def overall_of_def
  np_percentage_def np_mean_def notna_def mask_sum_def series_mean_def series_var_def
  series_std_def List.map_filter_simps Let_def W_completude_def W_validade_def
  W_consistencia_def get_recommendation_float_def

lemmas validator_defs =
  validate_physical_limits_def PHYSICAL_LIMITS_def deg_def physical_limits_of_def
  between_mask_def isna_def mask_indices_def enumerate_eq_zip

lemma validate_null:
  "validate_physical_limits df_null =
     [(umidade, \<lparr> valid_count = 2, invalid_count = 0, null_count = 0, total_count = 2,
                  valid_percentage = Some 100, invalid_indices = [],
                  min_limit = 0, max_limit = 100 \<rparr>),
      (vento, \<lparr> valid_count = 0, invalid_count = 0, null_count = 2, total_count = 2,
                  valid_percentage = Some 0, invalid_indices = [],
                  min_limit = 0, max_limit = 100 \<rparr>)]"
  by (simp add: df_null_def validator_defs df_len_def mask_sum_def np_percentage_def
      umidade_def vento_def)

lemma null_indices:
  "index_table (calculate_quality_index calc_null None) = [(umidade, Some 100), (vento, Some 0)]"
  by (simp add: calc_null_def validate_null index_table_def)
     (simp add: df_null_def metrics_defs umidade_def vento_def)

lemma null_overall:
  "overall_summary (get_overall_quality_index calc_null) = Inr (Some 50, 2)"
  by (simp add: calc_null_def validate_null overall_summary_def)
     (simp add: df_null_def metrics_defs umidade_def vento_def)

lemma dropna_Nil_all_null: "dropna s = [] \<Longrightarrow> \<forall>v \<in> set s. v = None"
  by (induction s rule: dropna.induct) simp_all

lemma all_null_counts:
  assumes "dropna s = []"
  shows "mask_sum (notna s) = 0"
    and "mask_sum (between_mask lo hi s) = 0"
    and "mask_sum (map2 (\<lambda>v n. \<not> v \<and> \<not> n) (between_mask lo hi s) (isna s)) = 0"
  using dropna_Nil_all_null [OF assms]
  by (induction s) (simp_all add: mask_sum_def notna_def between_mask_def isna_def)

lemma all_null_validity:
  "dropna s = [] \<Longrightarrow> validity_percentage (validity_of (physical_limits_of df b s)) = 0"
  by (simp add: validity_of_def physical_limits_of_def Let_def all_null_counts)

lemma map_of_validate_physical_limits:
  assumes wf: "wf_dataframe df" and col: "(col, s) \<in> set (variables df)"
  shows "map_of (validate_physical_limits df) col =
           map_option (\<lambda>b. physical_limits_of df b s) (map_of PHYSICAL_LIMITS col)"
  unfolding validate_physical_limits_def map_of_validate_columns
  using wf_map_of [OF wf col] wf_not_Data [OF wf col] by simp

text \<open>
  Claim C2, amended. In a well-formed, non-empty table, a variable with zero non-null
  values has completeness 0, validity 0 (when it has a validity entry at all) and
  consistency 0 with the message \<open>Dados insuficientes\<close>; its scores and its quality
  index are 0, and it is one of the entries the overall index averages: the overall
  index is the sum of the quality indices of all variables divided by the number of
  all variables, which is also \<open>variable_count\<close>.
\<close>

theorem all_null_variable_is_averaged_as_zero:
  assumes wf: "wf_dataframe df" and col: "(col, s) \<in> set (variables df)"
    and empty: "dropna s = []" and rows: "0 < df_len df"
  shows "\<exists>cs ks qs calc' c k q ov xs.
           calculate_completeness (init_calculator df (validate_physical_limits df)) None = Inr cs \<and>
           map_of cs col = Some c \<and> completeness_percentage c = Some 0 \<and>
           (case map_of (calculate_validity (init_calculator df (validate_physical_limits df)) None) col of
              None \<Rightarrow> True | Some v \<Rightarrow> validity_percentage v = 0) \<and>
           calculate_consistency (init_calculator df (validate_physical_limits df)) None = Inr ks \<and>
           map_of ks col = Some k \<and> consistency_percentage k = 0 \<and>
           message k = Some ''Dados insuficientes'' \<and>
           calculate_quality_index (init_calculator df (validate_physical_limits df)) None =
             Inr (qs, calc') \<and>
           map_of qs col = Some q \<and> (col, q) \<in> set qs \<and>
           completeness_score q = Some 0 \<and> validity_score q = 0 \<and> consistency_score q = 0 \<and>
           quality_index q = Some 0 \<and>
           get_overall_quality_index (init_calculator df (validate_physical_limits df)) =
             Inr (ov, calc') \<and>
           variable_count ov = length (variables df) \<and>
           map (\<lambda>(c, q). quality_index q) qs = map Some xs \<and>
           length xs = length (variables df) \<and>
           overall_quality_index ov = Some (sum_list xs / real (length (variables df)))"
proof -
  let ?calc = "init_calculator df (validate_physical_limits df)"
  have calc: "self_df ?calc = df" and fresh: "self_metrics ?calc = []"
    and results: "self_validation_results ?calc = validate_physical_limits df"
    by (simp_all add: init_calculator_def)
  have sel: "None = None \<or> None = Some col" by simp
  from quality_index_entry [OF wf calc col sel] obtain cs ks qs where
    cs: "calculate_completeness ?calc None = Inr cs" "map_of cs col = Some (completeness_of df s)"
    and v: "map_of (calculate_validity ?calc None) col =
              map_option validity_of (map_of (validate_physical_limits df) col)"
    and ks: "calculate_consistency ?calc None = Inr ks" "map_of ks col = Some (consistency_of s)"
    and qs: "calculate_quality_index ?calc None = Inr (qs, ?calc\<lparr> self_metrics := qs \<rparr>)"
      "map_of qs col = Some (quality_of (calculate_validity ?calc None) ks col (completeness_of df s))"
    unfolding results by blast
  let ?q = "quality_of (calculate_validity ?calc None) ks col (completeness_of df s)"
  have cp: "completeness_percentage (completeness_of df s) = Some 0"
    using rows by (simp add: completeness_of_def Let_def np_percentage_def all_null_counts [OF empty])
  have vp: "case map_of (calculate_validity ?calc None) col of
              None \<Rightarrow> True | Some v \<Rightarrow> validity_percentage v = 0"
    unfolding v map_of_validate_physical_limits [OF wf col]
    by (cases "map_of PHYSICAL_LIMITS col") (simp_all add: all_null_validity [OF empty])
  have kp: "consistency_percentage (consistency_of s) = 0"
       "message (consistency_of s) = Some ''Dados insuficientes''"
    by (simp_all add: consistency_of_def empty)
  have vs: "validity_score ?q = 0"
    using vp by (simp add: quality_of_def Let_def split: option.splits)
  have q: "completeness_score ?q = Some 0" "consistency_score ?q = 0" "quality_index ?q = Some 0"
    using cp kp ks vs by (simp_all add: quality_of_def Let_def split: option.splits)
  have mem: "(col, ?q) \<in> set qs" using qs(2) by (rule map_of_SomeD)
  from overall_of_fresh [OF wf calc fresh] qs(1) rows obtain xs where
    ov: "get_overall_quality_index ?calc = Inr (overall_of qs, ?calc\<lparr> self_metrics := qs \<rparr>)"
    and len: "length qs = length (variables df)"
    and xs: "map (\<lambda>(c, q). quality_index q) qs = map Some xs"
    by auto
  have lxs: "length xs = length (variables df)"
    using arg_cong [OF xs, of length] len by simp
  have ne: "xs \<noteq> []" using lxs col by auto
  have ovi: "overall_quality_index (overall_of qs) = Some (sum_list xs / real (length (variables df)))"
    using ne lxs xs np_mean_Some [OF ne] by (auto simp: overall_of_index)
  have cnt: "variable_count (overall_of qs) = length (variables df)"
    using len by (simp add: overall_of_index)
  from cs cp vp ks kp qs mem vs q ov cnt xs lxs ovi show ?thesis by blast
qed

text \<open>
  Claim C2, as stated: a variable with zero non-null values is excluded from the
  denominator of the overall average. In the table \<open>df_null\<close> the variable
  \<open>vento\<close> has no value; the indices are 100 and 0, and the overall index is their
  mean 50 over 2 variables, where the mean without the empty variable is 100.
\<close>

theorem all_null_variable_excluded_counterexample:
  "dropna (the (map_of (variables df_null) vento)) = [] \<and>
   index_table (calculate_quality_index calc_null None) = [(umidade, Some 100), (vento, Some 0)] \<and>
   overall_summary (get_overall_quality_index calc_null) = Inr (Some 50, 2) \<and>
   overall_excluding_empty df_null (calculate_quality_index calc_null None) = Some 100"
proof -
  have "dropna (the (map_of (variables df_null) vento)) = []"
    by (simp add: df_null_def umidade_def vento_def)
  moreover have "overall_excluding_empty df_null (calculate_quality_index calc_null None) = Some 100"
    by (simp add: calc_null_def validate_null overall_excluding_empty_def)
       (simp add: df_null_def metrics_defs umidade_def vento_def)
  ultimately show ?thesis using null_indices null_overall by simp
qed

theorem all_null_variable_is_averaged_as_zero_witness:
  "wf_dataframe df_null \<and> (vento, [None, None]) \<in> set (variables df_null) \<and>
   dropna [None :: real option, None] = [] \<and> 0 < df_len df_null \<and>
   (\<exists>qs calc' q ov.
      calculate_quality_index calc_null None = Inr (qs, calc') \<and>
      (vento, q) \<in> set qs \<and> quality_index q = Some 0 \<and>
      get_overall_quality_index calc_null = Inr (ov, calc') \<and>
      variable_count ov = 2)"
proof -
  have wf: "wf_dataframe df_null"
    by (simp add: df_null_def wf_dataframe_def df_columns_def df_len_def umidade_def vento_def)
  have col: "(vento, [None, None]) \<in> set (variables df_null)"
    by (simp add: df_null_def)
  have empty: "dropna [None :: real option, None] = []" by simp
  have rows: "0 < df_len df_null" by (simp add: df_null_def df_len_def)
  have len: "length (variables df_null) = 2" by (simp add: df_null_def)
  from all_null_variable_is_averaged_as_zero [OF wf col empty rows] wf col empty rows
  show ?thesis unfolding calc_null_def len by blast
qed

text \<open>
  Claim C10. For every variable column of a well-formed table that has no entry in
  \<open>PHYSICAL_LIMITS\<close>, there is no \<open>ValidationResult\<close>, yet
  \<open>calculate_quality_index\<close> produces an entry for it: its \<open>validity_score\<close> is 0,
  its quality index is \<open>completeness_score * 0.4 + consistency_score * 0.2\<close>, so at
  most 60, and the entry is one of those the overall index averages, the count of
  variables being that of all columns.
\<close>

theorem unranged_variable_enters_average:
  assumes wf: "wf_dataframe df" and col: "(col, s) \<in> set (variables df)"
    and nolim: "map_of PHYSICAL_LIMITS col = None"
  shows "\<exists>qs calc' q ov.
           map_of (validate_physical_limits df) col = None \<and>
           calculate_quality_index (init_calculator df (validate_physical_limits df)) None =
             Inr (qs, calc') \<and>
           map_of qs col = Some q \<and> (col, q) \<in> set qs \<and> length qs = length (variables df) \<and>
           validity_score q = 0 \<and>
           quality_index q =
             map_option (\<lambda>c. c * (4 / 10) + consistency_score q * (2 / 10)) (completeness_score q) \<and>
           (\<forall>x. quality_index q = Some x \<longrightarrow> x \<le> 60) \<and>
           get_overall_quality_index (init_calculator df (validate_physical_limits df)) =
             Inr (ov, calc') \<and>
           variable_count ov = length (variables df) \<and>
           overall_quality_index ov = np_mean (map (\<lambda>(c, q). quality_index q) qs) \<and>
           (0 < df_len df \<longrightarrow>
              (\<exists>xs. map (\<lambda>(c, q). quality_index q) qs = map Some xs \<and>
                    overall_quality_index ov = Some (sum_list xs / real (length (variables df)))))"
proof -
  let ?calc = "init_calculator df (validate_physical_limits df)"
  have calc: "self_df ?calc = df" and fresh: "self_metrics ?calc = []"
    and results: "self_validation_results ?calc = validate_physical_limits df"
    by (simp_all add: init_calculator_def)
  have sel: "None = None \<or> None = Some col" by simp
  have none: "map_of (validate_physical_limits df) col = None"
    using map_of_validate_physical_limits [OF wf col] nolim by simp
  from quality_index_entry [OF wf calc col sel] obtain cs ks qs where
    v: "map_of (calculate_validity ?calc None) col = None"
    and ks: "map_of ks col = Some (consistency_of s)"
    and qs: "calculate_quality_index ?calc None = Inr (qs, ?calc\<lparr> self_metrics := qs \<rparr>)"
      "map_of qs col = Some (quality_of (calculate_validity ?calc None) ks col (completeness_of df s))"
    unfolding results none by auto
  let ?q = "quality_of (calculate_validity ?calc None) ks col (completeness_of df s)"
  have vs: "validity_score ?q = 0"
    using v by (simp add: quality_of_def Let_def)
  have qi: "quality_index ?q =
      map_option (\<lambda>c. c * (4 / 10) + consistency_score ?q * (2 / 10)) (completeness_score ?q)"
    using v by (simp add: quality_of_def Let_def option.map_comp comp_def W_completude_def
        W_validade_def W_consistencia_def)
  have le: "\<forall>x. quality_index ?q = Some x \<longrightarrow> x \<le> 60"
    using v by (auto simp: quality_of_def Let_def W_completude_def W_validade_def
        W_consistencia_def)
  have mem: "(col, ?q) \<in> set qs" using qs(2) by (rule map_of_SomeD)
  from overall_of_fresh [OF wf calc fresh] qs(1) have
    ov: "get_overall_quality_index ?calc = Inr (overall_of qs, ?calc\<lparr> self_metrics := qs \<rparr>)"
    and len: "length qs = length (variables df)"
    and xs: "0 < df_len df \<Longrightarrow> \<exists>xs. map (\<lambda>(c, q). quality_index q) qs = map Some xs"
    by auto
  have ne: "qs \<noteq> []" using mem by auto
  have ovi: "overall_quality_index (overall_of qs) = np_mean (map (\<lambda>(c, q). quality_index q) qs)"
    using ne by (simp add: overall_of_index)
  have cnt: "variable_count (overall_of qs) = length (variables df)"
    using len by (simp add: overall_of_index)
  have mean: "\<exists>xs. map (\<lambda>(c, q). quality_index q) qs = map Some xs \<and>
      overall_quality_index (overall_of qs) = Some (sum_list xs / real (length (variables df)))"
    if rows: "0 < df_len df"
  proof -
    from xs [OF rows] obtain xs where x: "map (\<lambda>(c, q). quality_index q) qs = map Some xs"
      by blast
    have lxs: "length xs = length (variables df)"
      using arg_cong [OF x, of length] len by simp
    have "xs \<noteq> []" using lxs col by auto
    from np_mean_Some [OF this] x lxs ovi show ?thesis by auto
  qed
  show ?thesis
    apply (rule exI [of _ qs], rule exI [of _ "?calc\<lparr> self_metrics := qs \<rparr>"])
    apply (rule exI [of _ ?q], rule exI [of _ "overall_of qs"])
    using none qs mem len vs qi le ov cnt ovi mean by (intro conjI impI) assumption+
qed

lemma validate_unranged:
  "validate_physical_limits df_unranged =
     [(umidade, \<lparr> valid_count = 2, invalid_count = 0, null_count = 0, total_count = 2,
                  valid_percentage = Some 100, invalid_indices = [],
                  min_limit = 0, max_limit = 100 \<rparr>)]"
  by (simp add: df_unranged_def validator_defs df_len_def mask_sum_def np_percentage_def
      umidade_def)

theorem unranged_variable_enters_average_witness:
  "wf_dataframe df_unranged \<and> (''ESTACAO'', [Some 1, Some 1]) \<in> set (variables df_unranged) \<and>
   map_of PHYSICAL_LIMITS ''ESTACAO'' = None \<and>
   (\<exists>qs calc' q ov.
      calculate_quality_index calc_unranged None = Inr (qs, calc') \<and>
      (''ESTACAO'', q) \<in> set qs \<and> validity_score q = 0 \<and>
      get_overall_quality_index calc_unranged = Inr (ov, calc') \<and> variable_count ov = 2) \<and>
   index_table (calculate_quality_index calc_unranged None) =
     [(umidade, Some 100), (''ESTACAO'', Some 60)] \<and>
   overall_summary (get_overall_quality_index calc_unranged) = Inr (Some 80, 2)"
proof -
  have wf: "wf_dataframe df_unranged"
    by (simp add: df_unranged_def wf_dataframe_def df_columns_def df_len_def umidade_def)
  have col: "(''ESTACAO'', [Some 1, Some 1]) \<in> set (variables df_unranged)"
    by (simp add: df_unranged_def)
  have nolim: "map_of PHYSICAL_LIMITS ''ESTACAO'' = None"
    by (simp add: PHYSICAL_LIMITS_def deg_def)
  have len: "length (variables df_unranged) = 2" by (simp add: df_unranged_def)
  have idx: "index_table (calculate_quality_index calc_unranged None) =
      [(umidade, Some 100), (''ESTACAO'', Some 60)]"
    by (simp add: calc_unranged_def validate_unranged index_table_def)
       (simp add: df_unranged_def metrics_defs umidade_def)
  have ovl: "overall_summary (get_overall_quality_index calc_unranged) = Inr (Some 80, 2)"
    by (simp add: calc_unranged_def validate_unranged overall_summary_def)
       (simp add: df_unranged_def metrics_defs umidade_def)
  from unranged_variable_enters_average [OF wf col nolim] wf col nolim idx ovl
  show ?thesis unfolding calc_unranged_def len by blast
qed

lemma abs_div_sqrt_gt_three:
  assumes v: "0 < v"
  shows "\<bar>a / sqrt v\<bar> > 3 \<longleftrightarrow> 9 * v < a\<^sup>2"
proof -
  have pos: "0 < sqrt v" using v by simp
  have "\<bar>a / sqrt v\<bar> > 3 \<longleftrightarrow> 3 * sqrt v < \<bar>a\<bar>"
    using pos by (simp add: abs_divide pos_less_divide_eq)
  also have "\<dots> \<longleftrightarrow> (3 * sqrt v)\<^sup>2 < \<bar>a\<bar>\<^sup>2"
  proof
    assume "3 * sqrt v < \<bar>a\<bar>"
    then show "(3 * sqrt v)\<^sup>2 < \<bar>a\<bar>\<^sup>2"
      using pos by (intro power_strict_mono) simp_all
  next
    assume "(3 * sqrt v)\<^sup>2 < \<bar>a\<bar>\<^sup>2"
    then show "3 * sqrt v < \<bar>a\<bar>"
      by (rule power2_less_imp_less) simp
  qed
  finally show ?thesis using v by (simp add: power_mult_distrib)
qed

lemma mask_sum_map: "mask_sum (map P xs) = length (filter P xs)"
  by (induction xs) (simp_all add: mask_sum_def)

lemma sum_squares_nonneg: "0 \<le> sum_list (map (\<lambda>x. (x - m)\<^sup>2) xs)" for m :: real
  by (rule sum_list_nonneg) auto

lemma sum_squares_zero:
  "sum_list (map (\<lambda>x. (x - m)\<^sup>2) xs) = 0 \<Longrightarrow> x \<in> set xs \<Longrightarrow> x = m" for m :: real
  by (induction xs) (auto simp: add_nonneg_eq_0_iff sum_squares_nonneg)

text \<open>The z-score test of the code without the square root.\<close>

lemma z_test_sample:
  assumes n: "2 \<le> length xs" and x: "x \<in> set xs"
  shows "(series_std xs \<noteq> 0 \<and> \<bar>(x - series_mean xs) / series_std xs\<bar> > 3) \<longleftrightarrow>
         9 * sum_list (map (\<lambda>y. (y - series_mean xs)\<^sup>2) xs) <
           (real (length xs) - 1) * (x - series_mean xs)\<^sup>2"
proof -
  let ?ss = "sum_list (map (\<lambda>y. (y - series_mean xs)\<^sup>2) xs)"
  have d: "0 < real (length xs) - 1" using n by simp
  have ss: "0 \<le> ?ss" by (rule sum_squares_nonneg)
  show ?thesis
  proof (cases "?ss = 0")
    case True
    then have "series_std xs = 0" by (simp add: series_std_def series_var_def)
    moreover have "\<not> 9 * ?ss < (real (length xs) - 1) * (x - series_mean xs)\<^sup>2"
      using sum_squares_zero [OF True x] True by simp
    ultimately show ?thesis by simp
  next
    case False
    with ss have pos: "0 < ?ss" by simp
    then have v: "0 < series_var xs" using d by (simp add: series_var_def)
    then have nz: "series_std xs \<noteq> 0" by (simp add: series_std_def)
    have "\<bar>(x - series_mean xs) / series_std xs\<bar> > 3 \<longleftrightarrow>
          9 * series_var xs < (x - series_mean xs)\<^sup>2"
      unfolding series_std_def by (rule abs_div_sqrt_gt_three [OF v])
    also have "\<dots> \<longleftrightarrow> 9 * ?ss < (real (length xs) - 1) * (x - series_mean xs)\<^sup>2"
      using d by (simp add: series_var_def pos_divide_less_eq mult.commute)
    finally show ?thesis using nz by simp
  qed
qed

lemma z_test_population:
  assumes n: "xs \<noteq> []" and x: "x \<in> set xs"
  shows "\<bar>(x - series_mean xs) / population_std xs\<bar> > 3 \<longleftrightarrow>
         9 * sum_list (map (\<lambda>y. (y - series_mean xs)\<^sup>2) xs) <
           real (length xs) * (x - series_mean xs)\<^sup>2"
proof -
  let ?ss = "sum_list (map (\<lambda>y. (y - series_mean xs)\<^sup>2) xs)"
  have d: "0 < real (length xs)" using n by simp
  have ss: "0 \<le> ?ss" by (rule sum_squares_nonneg)
  show ?thesis
  proof (cases "?ss = 0")
    case True
    then have "population_std xs = 0" by (simp add: population_std_def)
    moreover have "\<not> 9 * ?ss < real (length xs) * (x - series_mean xs)\<^sup>2"
      using sum_squares_zero [OF True x] True by simp
    ultimately show ?thesis by simp
  next
    case False
    with ss have pos: "0 < ?ss" by simp
    then have v: "0 < ?ss / real (length xs)" using d by simp
    have "\<bar>(x - series_mean xs) / population_std xs\<bar> > 3 \<longleftrightarrow>
          9 * (?ss / real (length xs)) < (x - series_mean xs)\<^sup>2"
      unfolding population_std_def by (rule abs_div_sqrt_gt_three [OF v])
    also have "\<dots> \<longleftrightarrow> 9 * ?ss < real (length xs) * (x - series_mean xs)\<^sup>2"
      using d by (simp add: pos_divide_less_eq mult.commute)
    finally show ?thesis .
  qed
qed

lemma code_anomaly_count:
  assumes n: "2 \<le> length xs"
  shows "(if series_std xs = 0 then 0
          else mask_sum (map (\<lambda>x. \<bar>(x - series_mean xs) / series_std xs\<bar> > 3) xs)) =
         length (filter (\<lambda>x. 9 * sum_list (map (\<lambda>y. (y - series_mean xs)\<^sup>2) xs) <
                           (real (length xs) - 1) * (x - series_mean xs)\<^sup>2) xs)"
proof -
  have "(if series_std xs = 0 then 0
          else mask_sum (map (\<lambda>x. \<bar>(x - series_mean xs) / series_std xs\<bar> > 3) xs)) =
        length (filter (\<lambda>x. series_std xs \<noteq> 0 \<and>
                           \<bar>(x - series_mean xs) / series_std xs\<bar> > 3) xs)"
    by (simp add: mask_sum_map)
  also have "\<dots> = length (filter (\<lambda>x. 9 * sum_list (map (\<lambda>y. (y - series_mean xs)\<^sup>2) xs) <
                           (real (length xs) - 1) * (x - series_mean xs)\<^sup>2) xs)"
    by (rule arg_cong [where f = length], rule filter_cong [OF refl]) (rule z_test_sample [OF n])
  finally show ?thesis .
qed

lemma sample_anomalies_count:
  assumes n: "2 \<le> length xs"
  shows "length (sample_anomalies xs) =
         length (filter (\<lambda>x. 9 * sum_list (map (\<lambda>y. (y - series_mean xs)\<^sup>2) xs) <
                           (real (length xs) - 1) * (x - series_mean xs)\<^sup>2) xs)"
proof -
  have "sample_anomalies xs =
        filter (\<lambda>x. series_std xs \<noteq> 0 \<and> \<bar>(x - series_mean xs) / series_std xs\<bar> > 3) xs"
    unfolding sample_anomalies_def by (rule filter_cong [OF refl]) auto
  also have "\<dots> = filter (\<lambda>x. 9 * sum_list (map (\<lambda>y. (y - series_mean xs)\<^sup>2) xs) <
                           (real (length xs) - 1) * (x - series_mean xs)\<^sup>2) xs"
    by (rule filter_cong [OF refl]) (rule z_test_sample [OF n])
  finally show ?thesis by simp
qed

lemma population_anomalies_count:
  assumes n: "xs \<noteq> []"
  shows "population_anomalies xs =
         filter (\<lambda>x. 9 * sum_list (map (\<lambda>y. (y - series_mean xs)\<^sup>2) xs) <
                           real (length xs) * (x - series_mean xs)\<^sup>2) xs"
  unfolding population_anomalies_def
  by (rule filter_cong [OF refl]) (rule z_test_population [OF n])

lemma dropna_map_Some: "dropna (map Some xs) = xs"
  by (induction xs) simp_all

lemma consistency_of_counts:
  assumes n: "2 \<le> length (dropna s)"
  shows "anomaly_count (consistency_of s) =
           length (filter (\<lambda>x. 9 * sum_list (map (\<lambda>y. (y - series_mean (dropna s))\<^sup>2) (dropna s)) <
                     (real (length (dropna s)) - 1) * (x - series_mean (dropna s))\<^sup>2) (dropna s))"
    and "consistency_percentage (consistency_of s) =
           (real (length (dropna s)) - real (anomaly_count (consistency_of s))) /
             real (length (dropna s)) * 100"
    and "message (consistency_of s) = None"
    and "c_mean (consistency_of s) = Some (series_mean (dropna s))"
    and "c_std (consistency_of s) = Some (series_std (dropna s))"
    and "series_std (dropna s) = 0 \<longrightarrow> anomaly_count (consistency_of s) = 0"
proof -
  have k: "anomaly_count (consistency_of s) =
      (if series_std (dropna s) = 0 then 0
       else mask_sum (map (\<lambda>x. \<bar>(x - series_mean (dropna s)) / series_std (dropna s)\<bar> > 3)
                        (dropna s)))"
    using n by (simp add: consistency_of_def Let_def)
  show "anomaly_count (consistency_of s) =
           length (filter (\<lambda>x. 9 * sum_list (map (\<lambda>y. (y - series_mean (dropna s))\<^sup>2) (dropna s)) <
                     (real (length (dropna s)) - 1) * (x - series_mean (dropna s))\<^sup>2) (dropna s))"
    unfolding k by (rule code_anomaly_count [OF n])
  show "consistency_percentage (consistency_of s) =
           (real (length (dropna s)) - real (anomaly_count (consistency_of s))) /
             real (length (dropna s)) * 100"
    using n by (simp add: consistency_of_def Let_def)
  show "message (consistency_of s) = None"
    using n by (simp add: consistency_of_def Let_def)
  show "c_mean (consistency_of s) = Some (series_mean (dropna s))"
    using n by (simp add: consistency_of_def Let_def)
  show "c_std (consistency_of s) = Some (series_std (dropna s))"
    using n by (simp add: consistency_of_def Let_def)
  show "series_std (dropna s) = 0 \<longrightarrow> anomaly_count (consistency_of s) = 0"
    unfolding k by simp
qed

text \<open>
  Claim C5, amended. For every variable with at least 2 non-null values,
  \<open>calculate_consistency\<close> flags as anomalies exactly the non-null values whose
  absolute z-score exceeds 3, the z-score being computed with the mean and the sample
  standard deviation (divisor \<open>n - 1\<close>) of the non-null values: a value \<open>x\<close> is flagged
  if and only if \<open>9 * sum of squared deviations < (n - 1) * (x - mean)^2\<close>. It returns
  consistency = (non-null count - anomaly count) / non-null count * 100, and when the
  standard deviation is exactly 0 the anomaly count is 0.
\<close>

theorem consistency_flags_sample_z_scores:
  assumes wf: "wf_dataframe df" and calc: "self_df calc = df"
    and col: "(col, s) \<in> set (variables df)"
    and sel: "column = None \<or> column = Some col"
    and n: "2 \<le> length (dropna s)"
  shows "\<exists>ks k.
           calculate_consistency calc column = Inr ks \<and> map_of ks col = Some k \<and>
           anomaly_count k = length (sample_anomalies (dropna s)) \<and>
           anomaly_count k =
             length (filter (\<lambda>x. 9 * sum_list (map (\<lambda>y. (y - series_mean (dropna s))\<^sup>2) (dropna s)) <
                       (real (length (dropna s)) - 1) * (x - series_mean (dropna s))\<^sup>2) (dropna s)) \<and>
           consistency_percentage k =
             (real (length (dropna s)) - real (anomaly_count k)) / real (length (dropna s)) * 100 \<and>
           c_mean k = Some (series_mean (dropna s)) \<and>
           c_std k = Some (series_std (dropna s)) \<and>
           (series_std (dropna s) = 0 \<longrightarrow> anomaly_count k = 0)"
proof -
  from quality_index_entry [OF wf calc col sel] obtain ks where
    ks: "calculate_consistency calc column = Inr ks" "map_of ks col = Some (consistency_of s)"
    by blast
  have "anomaly_count (consistency_of s) = length (sample_anomalies (dropna s))"
    using consistency_of_counts(1) [OF n] sample_anomalies_count [OF n] by simp
  with ks consistency_of_counts [OF n] show ?thesis by blast
qed

lemma outlier_consistency:
  "calculate_consistency (init_calculator df_outlier (validate_physical_limits df_outlier)) None =
     Inr [(umidade, consistency_of (map Some xs_outlier))]"
  by (simp add: init_calculator_def calculate_consistency_def select_columns_def
      non_date_columns_def df_columns_def df_getitem_def df_outlier_def umidade_def)

lemma outlier_length: "2 \<le> length (dropna (map Some xs_outlier))"
  by (simp add: dropna_map_Some xs_outlier_def)

text \<open>
  Claim C5, as stated: the z-score uses the population standard deviation. On the
  eleven values \<open>xs_outlier\<close> the population z-score of the value 4 exceeds 3, so the
  claim has one anomaly and consistency \<open>10 / 11 * 100\<close>; the code flags nothing and
  returns consistency 100.
\<close>

theorem population_z_score_counterexample:
  "dropna (map Some xs_outlier) = xs_outlier \<and> 2 \<le> length xs_outlier \<and>
   population_anomalies xs_outlier = [4] \<and>
   anomaly_table
     (calculate_consistency (init_calculator df_outlier (validate_physical_limits df_outlier)) None) =
     [(umidade, 0, 100)]"
proof -
  have pop: "population_anomalies xs_outlier = [4]"
  proof -
    have ne: "xs_outlier \<noteq> []" by (simp add: xs_outlier_def)
    show ?thesis
      unfolding population_anomalies_count [OF ne]
      by (simp add: xs_outlier_def series_mean_def power2_eq_square)
  qed
  have cnt: "anomaly_count (consistency_of (map Some xs_outlier)) = 0"
    unfolding consistency_of_counts(1) [OF outlier_length] dropna_map_Some
    by (simp add: xs_outlier_def series_mean_def power2_eq_square)
  have pct: "consistency_percentage (consistency_of (map Some xs_outlier)) = 100"
    unfolding consistency_of_counts(2) [OF outlier_length] cnt dropna_map_Some
    by (simp add: xs_outlier_def)
  show ?thesis
    using pop cnt pct by (simp add: outlier_consistency anomaly_table_def dropna_map_Some)
      (simp add: xs_outlier_def)
qed

theorem consistency_flags_sample_z_scores_witness:
  "wf_dataframe df_outlier \<and>
   self_df (init_calculator df_outlier (validate_physical_limits df_outlier)) = df_outlier \<and>
   (umidade, map Some xs_outlier) \<in> set (variables df_outlier) \<and>
   2 \<le> length (dropna (map Some xs_outlier)) \<and>
   (\<exists>ks k.
      calculate_consistency
        (init_calculator df_outlier (validate_physical_limits df_outlier)) None = Inr ks \<and>
      map_of ks umidade = Some k \<and>
      anomaly_count k = length (sample_anomalies (dropna (map Some xs_outlier))) \<and>
      consistency_percentage k =
        (real (length (dropna (map Some xs_outlier))) - real (anomaly_count k)) /
          real (length (dropna (map Some xs_outlier))) * 100)"
proof -
  have wf: "wf_dataframe df_outlier"
    by (simp add: df_outlier_def wf_dataframe_def df_columns_def df_len_def umidade_def
        xs_outlier_def)
  have calc: "self_df (init_calculator df_outlier (validate_physical_limits df_outlier)) =
      df_outlier"
    by (simp add: init_calculator_def)
  have col: "(umidade, map Some xs_outlier) \<in> set (variables df_outlier)"
    by (simp add: df_outlier_def)
  have sel: "None = None \<or> None = Some umidade" by simp
  from consistency_flags_sample_z_scores [OF wf calc col sel outlier_length]
    wf calc col outlier_length
  show ?thesis by blast
qed

end
